theory Spec2Isabelle
  imports Complex_Main "HOL-Library.AList"
begin

section \<open>JavaScript values and the coercions the verifier applies to them\<close>

text \<open>
  A decoded payment proof is whatever \<^verbatim>\<open>JSON.parse\<close> returned: the TypeScript interfaces
  \<^verbatim>\<open>X402RealProof\<close> and \<^verbatim>\<open>X402MockProof\<close> are only casts (\<^verbatim>\<open>decoded as ...\<close>), so the
  fields of a proof hold arbitrary values at run time. The model therefore keeps proofs
  as untyped values and writes out every coercion of the source (\<^verbatim>\<open>String(x)\<close>,
  \<^verbatim>\<open>BigInt(x)\<close>, \<^verbatim>\<open>parseInt(x)\<close>, \<^verbatim>\<open>x ?? d\<close>, \<^verbatim>\<open>x.toLowerCase()\<close>, property reads)
  with the exception it can throw.

  Conventions of the model:
  \<^item> a \<^verbatim>\<open>number\<close> is a rational (every finite double is one); the rounding of an
    arithmetic result to a double is the function \<open>fl\<close> of the platform, about which
    nothing is assumed. \<^verbatim>\<open>NaN\<close> is modelled where the code can produce it
    (\<^verbatim>\<open>parseInt\<close> returns \<open>None\<close>); infinities are outside the model;
  \<^item> a \<^verbatim>\<open>bigint\<close> is an \<open>int\<close>;
  \<^item> a string is a list of 8-bit characters; case mapping and white space are ASCII;
  \<^item> an object is an association list of its own properties, in insertion order;
  \<^item> a thrown exception is a value \<open>Inl e\<close> of the result type \<open>exn + 'a\<close>. The message
    texts of exceptions raised by the engine itself are those of V8.
\<close>

datatype jsval =
    JUndefined
  | JNull
  | JBool bool
  | JNum rat
  | JStr string
  | JArr "jsval list"
  | JObj "(string \<times> jsval) list"

datatype exn =
    Error string
  | TypeError string
  | SyntaxError string
  | RangeError string

fun message :: "exn \<Rightarrow> string" where
  "message (Error m) = m"
| "message (TypeError m) = m"
| "message (SyntaxError m) = m"
| "message (RangeError m) = m"

definition bindE :: "exn + 'a \<Rightarrow> ('a \<Rightarrow> exn + 'b) \<Rightarrow> exn + 'b" where
  "bindE m f = (case m of Inl e \<Rightarrow> Inl e | Inr x \<Rightarrow> f x)"

text \<open>\<^verbatim>\<open>a ?? d\<close>: the default replaces \<^verbatim>\<open>null\<close> and \<^verbatim>\<open>undefined\<close> only.\<close>

fun nullish :: "jsval \<Rightarrow> jsval \<Rightarrow> jsval" where
  "nullish JUndefined d = d"
| "nullish JNull d = d"
| "nullish v d = v"

text \<open>Truthiness (\<^verbatim>\<open>!x\<close>, \<^verbatim>\<open>x ? a : b\<close>).\<close>

fun truthy :: "jsval \<Rightarrow> bool" where
  "truthy JUndefined = False"
| "truthy JNull = False"
| "truthy (JBool b) = b"
| "truthy (JNum r) = (r \<noteq> 0)"
| "truthy (JStr s) = (s \<noteq> [])"
| "truthy (JArr xs) = True"
| "truthy (JObj kvs) = True"

text \<open>\<^verbatim>\<open>typeof x === "object"\<close>: true of \<^verbatim>\<open>null\<close>, of arrays and of objects.\<close>

fun typeofObject :: "jsval \<Rightarrow> bool" where
  "typeofObject JNull = True"
| "typeofObject (JArr xs) = True"
| "typeofObject (JObj kvs) = True"
| "typeofObject v = False"

text \<open>
  \<^verbatim>\<open>"k" in x\<close> for the property names the code asks about (none of them is an array
  index or \<^verbatim>\<open>length\<close>, so an array has none of them). The source only evaluates it
  after \<^verbatim>\<open>typeof x === "object" && x !== null\<close>.
\<close>

fun hasKey :: "string \<Rightarrow> jsval \<Rightarrow> bool" where
  "hasKey k (JObj kvs) = (map_of kvs k \<noteq> None)"
| "hasKey k v = False"

text \<open>
  A property read \<^verbatim>\<open>x.k\<close>, for the property names the code reads (none of them is
  inherited from a prototype): \<^verbatim>\<open>undefined\<close> when absent, a \<^verbatim>\<open>TypeError\<close> on
  \<^verbatim>\<open>null\<close> and \<^verbatim>\<open>undefined\<close>.
\<close>

fun getProp :: "jsval \<Rightarrow> string \<Rightarrow> exn + jsval" where
  "getProp (JObj kvs) k = Inr (case map_of kvs k of None \<Rightarrow> JUndefined | Some v \<Rightarrow> v)"
| "getProp JNull k =
     Inl (TypeError (''Cannot read properties of null (reading '' @ [CHR 0x27] @ k @ [CHR 0x27] @ '')''))"
| "getProp JUndefined k =
     Inl (TypeError (''Cannot read properties of undefined (reading '' @ [CHR 0x27] @ k @ [CHR 0x27] @ '')''))"
| "getProp v k = Inr JUndefined"

subsection \<open>Strings\<close>

definition upperChars :: string where
  "upperChars = ''ABCDEFGHIJKLMNOPQRSTUVWXYZ''"

definition lowerChars :: string where
  "lowerChars = ''abcdefghijklmnopqrstuvwxyz''"

definition lowerChar :: "char \<Rightarrow> char" where
  "lowerChar c = (case map_of (zip upperChars lowerChars) c of None \<Rightarrow> c | Some d \<Rightarrow> d)"

text \<open>\<^verbatim>\<open>s.toLowerCase()\<close> on a string.\<close>

definition toLowerCase :: "string \<Rightarrow> string" where
  "toLowerCase s = map lowerChar s"

text \<open>
  \<^verbatim>\<open>x.toLowerCase()\<close> on a value of unknown type: only strings have the method.
\<close>

fun callToLowerCase :: "string \<Rightarrow> jsval \<Rightarrow> exn + string" where
  "callToLowerCase nm (JStr s) = Inr (toLowerCase s)"
| "callToLowerCase nm JNull =
     Inl (TypeError (''Cannot read properties of null (reading '' @ [CHR 0x27] @ ''toLowerCase'' @ [CHR 0x27] @ '')''))"
| "callToLowerCase nm JUndefined =
     Inl (TypeError (''Cannot read properties of undefined (reading '' @ [CHR 0x27] @ ''toLowerCase'' @ [CHR 0x27] @ '')''))"
| "callToLowerCase nm v = Inl (TypeError (nm @ ''.toLowerCase is not a function''))"

text \<open>\<^verbatim>\<open>s.includes(t)\<close>: \<open>t\<close> occurs in \<open>s\<close> as a contiguous substring.\<close>

fun includes_str :: "string \<Rightarrow> string \<Rightarrow> bool" where
  "includes_str [] t = (t = [])"
| "includes_str (c # cs) t = (take (length t) (c # cs) = t \<or> includes_str cs t)"


text \<open>
  \<^verbatim>\<open>String(x)\<close>, which is also the string a template literal inserts and the string
  \<^verbatim>\<open>BigInt\<close> and \<^verbatim>\<open>parseInt\<close> read from a value that is not a primitive. An array is
  its elements joined by commas, \<^verbatim>\<open>null\<close> and \<^verbatim>\<open>undefined\<close> elements being empty.
  The first argument is the platform's \<^verbatim>\<open>Number\<close>-to-string conversion.
\<close>

fun jsString :: "(rat \<Rightarrow> string) \<Rightarrow> jsval \<Rightarrow> string"
  and jsJoin :: "(rat \<Rightarrow> string) \<Rightarrow> jsval list \<Rightarrow> string" where
  "jsString ns JUndefined = ''undefined''"
| "jsString ns JNull = ''null''"
| "jsString ns (JBool b) = (if b then ''true'' else ''false'')"
| "jsString ns (JNum r) = ns r"
| "jsString ns (JStr s) = s"
| "jsString ns (JArr xs) = jsJoin ns xs"
| "jsString ns (JObj kvs) = ''[object Object]''"
| "jsJoin ns [] = []"
| "jsJoin ns [x] = (if x = JUndefined \<or> x = JNull then [] else jsString ns x)"
| "jsJoin ns (x # y # ys) =
     (if x = JUndefined \<or> x = JNull then [] else jsString ns x) @ '','' @ jsJoin ns (y # ys)"

subsection \<open>Integers written as strings\<close>

definition isWhite :: "char \<Rightarrow> bool" where
  "isWhite c = (c \<in> set [CHR 0x09, CHR 0x0A, CHR 0x0B, CHR 0x0C, CHR 0x0D, CHR '' ''])"

definition trimStart :: "string \<Rightarrow> string" where
  "trimStart s = dropWhile isWhite s"

definition trim :: "string \<Rightarrow> string" where
  "trim s = rev (dropWhile isWhite (rev (dropWhile isWhite s)))"

definition digitChars :: string where
  "digitChars = ''0123456789abcdefghijklmnopqrstuvwxyz''"

fun indexOf :: "char \<Rightarrow> string \<Rightarrow> nat option" where
  "indexOf c [] = None"
| "indexOf c (d # ds) = (if c = d then Some 0 else map_option Suc (indexOf c ds))"

text \<open>The value of a digit in a radix, \<open>None\<close> when the character is not one.\<close>

definition digitVal :: "nat \<Rightarrow> char \<Rightarrow> nat option" where
  "digitVal radix c =
     (case indexOf (lowerChar c) digitChars of
        None \<Rightarrow> None
      | Some d \<Rightarrow> if d < radix then Some d else None)"

definition isDigit :: "nat \<Rightarrow> char \<Rightarrow> bool" where
  "isDigit radix c = (digitVal radix c \<noteq> None)"

definition digitsValue :: "nat \<Rightarrow> string \<Rightarrow> int" where
  "digitsValue radix ds =
     foldl (\<lambda>acc c. acc * int radix + int (the (digitVal radix c))) 0 ds"

text \<open>A non-empty string made of digits only, as a number.\<close>

definition allDigits :: "nat \<Rightarrow> string \<Rightarrow> int option" where
  "allDigits radix ds =
     (if ds \<noteq> [] \<and> list_all (isDigit radix) ds then Some (digitsValue radix ds) else None)"

text \<open>
  \<^verbatim>\<open>StringToBigInt\<close> (ECMA-262): white space is trimmed; the empty string is \<open>0n\<close>;
  then either a non-decimal literal \<^verbatim>\<open>0x\<close>, \<^verbatim>\<open>0o\<close>, \<^verbatim>\<open>0b\<close> (no sign), or decimal
  digits with an optional sign. Anything else is not a BigInt.
\<close>

fun bigIntLiteral :: "string \<Rightarrow> int option" where
  "bigIntLiteral [] = Some 0"
| "bigIntLiteral (c # cs) =
     (if c = CHR ''0'' \<and> cs \<noteq> [] \<and> hd cs \<in> set ''xX'' then allDigits 16 (tl cs)
      else if c = CHR ''0'' \<and> cs \<noteq> [] \<and> hd cs \<in> set ''oO'' then allDigits 8 (tl cs)
      else if c = CHR ''0'' \<and> cs \<noteq> [] \<and> hd cs \<in> set ''bB'' then allDigits 2 (tl cs)
      else if c = CHR ''-'' then map_option uminus (allDigits 10 cs)
      else if c = CHR ''+'' then allDigits 10 cs
      else allDigits 10 (c # cs))"

definition stringToBigInt :: "string \<Rightarrow> exn + int" where
  "stringToBigInt s =
     (case bigIntLiteral (trim s) of
        None \<Rightarrow> Inl (SyntaxError (''Cannot convert '' @ s @ '' to a BigInt''))
      | Some n \<Rightarrow> Inr n)"

text \<open>
  \<^verbatim>\<open>BigInt(x)\<close>: a number must be an integer, a boolean is 0 or 1, \<^verbatim>\<open>null\<close> and
  \<^verbatim>\<open>undefined\<close> are refused, and everything else is read as a string.
\<close>

fun toBigInt :: "(rat \<Rightarrow> string) \<Rightarrow> jsval \<Rightarrow> exn + int" where
  "toBigInt ns JUndefined = Inl (TypeError ''Cannot convert undefined to a BigInt'')"
| "toBigInt ns JNull = Inl (TypeError ''Cannot convert null to a BigInt'')"
| "toBigInt ns (JBool b) = Inr (if b then 1 else 0)"
| "toBigInt ns (JNum r) =
     (if of_int \<lfloor>r\<rfloor> = r then Inr \<lfloor>r\<rfloor>
      else Inl (RangeError (''The number '' @ ns r @
             '' cannot be converted to a BigInt because it is not an integer'')))"
| "toBigInt ns v = stringToBigInt (jsString ns v)"

text \<open>
  \<^verbatim>\<open>parseInt(s)\<close> on a string, without a radix: leading white space is skipped, then an
  optional sign, then \<^verbatim>\<open>0x\<close> selects radix 16; the longest prefix of digits is the
  number, and there is no number (\<^verbatim>\<open>NaN\<close>, here \<open>None\<close>) when that prefix is empty.
\<close>

definition parseIntString :: "string \<Rightarrow> int option" where
  "parseIntString s =
     (let t = trimStart s;
          neg = (t \<noteq> [] \<and> hd t = CHR ''-'');
          t1 = (if t \<noteq> [] \<and> hd t \<in> set ''+-'' then tl t else t);
          hex = (length t1 \<ge> 2 \<and> hd t1 = CHR ''0'' \<and> hd (tl t1) \<in> set ''xX'');
          radix = (if hex then 16 else 10);
          t2 = (if hex then drop 2 t1 else t1);
          ds = takeWhile (isDigit radix) t2
      in if ds = [] then None
         else Some ((if neg then - 1 else 1) * digitsValue radix ds))"



section \<open>The platform\<close>

text \<open>
  The library functions the code calls and does not define: Node's \<^verbatim>\<open>Buffer\<close> base64
  codec, \<^verbatim>\<open>JSON.parse\<close> (\<open>None\<close> when it throws) and \<^verbatim>\<open>JSON.stringify\<close>, the
  \<^verbatim>\<open>Number\<close>-to-string conversion, the rounding \<open>fl\<close> of an exact arithmetic result to
  a double, \<^verbatim>\<open>Date.prototype.toISOString\<close> on a valid time value, and viem's
  \<^verbatim>\<open>verifyTypedData\<close>. Every theorem below holds for every platform.
\<close>

record typedData =
  td_address :: jsval
  td_chainId :: int
  td_from :: jsval
  td_to :: jsval
  td_value :: int
  td_validAfter :: int
  td_validBefore :: int
  td_nonce :: jsval
  td_signature :: jsval

record platform =
  base64ToUtf8 :: "string \<Rightarrow> string"
  utf8ToBase64 :: "string \<Rightarrow> string"
  jsonParse :: "string \<Rightarrow> jsval option"
  jsonStringify :: "jsval \<Rightarrow> string"
  numberToString :: "rat \<Rightarrow> string"
  fl :: "rat \<Rightarrow> rat"
  dateToISOString :: "int \<Rightarrow> string"
  verifyTypedData :: "typedData \<Rightarrow> exn + bool"

text \<open>
  \<^verbatim>\<open>BigInt(Math.round(usdc * 1_000_000))\<close>. \<^verbatim>\<open>Math.round\<close> is the nearest integer, a
  tie going up, which is \<^const>\<open>round\<close>; the product is a double.
\<close>

definition toMicroUnits :: "platform \<Rightarrow> rat \<Rightarrow> int" where
  "toMicroUnits P usdc = round (fl P (usdc * 1000000))"

text \<open>\<^verbatim>\<open>Number(amount) / 1_000_000\<close> for a \<^verbatim>\<open>bigint\<close> amount.\<close>

definition microToUSDC :: "platform \<Rightarrow> int \<Rightarrow> rat" where
  "microToUSDC P n = fl P (fl P (of_int n) / 1000000)"

text \<open>\<^verbatim>\<open>Math.floor(Date.now() / 1000)\<close>, from the clock reading in milliseconds.\<close>

definition nowSeconds :: "platform \<Rightarrow> int \<Rightarrow> int" where
  "nowSeconds P nowMs = \<lfloor>fl P (of_int nowMs / 1000)\<rfloor>"

text \<open>\<^verbatim>\<open>parseInt(x)\<close>: the argument is converted to a string first.\<close>

definition parseInt :: "platform \<Rightarrow> jsval \<Rightarrow> rat option" where
  "parseInt P v = map_option (\<lambda>n. fl P (of_int n)) (parseIntString (jsString (numberToString P) v))"

text \<open>
  \<^verbatim>\<open>new Date(seconds * 1000).toISOString()\<close>: a time value beyond 8.64e15 ms is an
  invalid date, on which \<^verbatim>\<open>toISOString\<close> throws.
\<close>

definition jsTrunc :: "rat \<Rightarrow> int" where
  "jsTrunc x = (if 0 \<le> x then \<lfloor>x\<rfloor> else \<lceil>x\<rceil>)"

definition dateISO :: "platform \<Rightarrow> rat \<Rightarrow> exn + string" where
  "dateISO P seconds =
     (let ms = fl P (seconds * 1000)
      in if \<bar>ms\<bar> > 8640000000000000 then Inl (RangeError ''Invalid time value'')
         else Inr (dateToISOString P (jsTrunc ms)))"

section \<open>Proof codec (x402-verifier.ts)\<close>

text \<open>
  Interfaces are records. A field whose name occurs in more than one interface of the
  source carries a short prefix of its interface here; all other names are the source's.
\<close>

record X402VerifierConfig =
  recipientAddress :: string
  requiredAmountUSDC :: rat
  simulationMode :: "bool option"
  rpcUrl :: "string option"
  network :: "string option"

record X402PaymentVerification =
  valid :: bool
  amount :: int
  recipient :: string
  payer :: jsval
  txHash :: "string option"
  error :: "string option"

text \<open>
  \<^verbatim>\<open>decodePaymentProof\<close>: base64 then JSON, else the raw text as JSON, else an error;
  the result must be truthy and of type object (arrays pass).
\<close>

definition decodePaymentProof :: "platform \<Rightarrow> string \<Rightarrow> exn + jsval" where
  "decodePaymentProof P proof =
     (case (case jsonParse P (base64ToUtf8 P proof) of
              Some d \<Rightarrow> Some d
            | None \<Rightarrow> jsonParse P proof) of
        None \<Rightarrow> Inl (Error (''Invalid x402 payment proof format: '' @ take 50 proof @ ''...''))
      | Some decoded \<Rightarrow>
          if \<not> truthy decoded \<or> \<not> typeofObject decoded
          then Inl (Error ''Payment proof is not a JSON object'')
          else Inr decoded)"

definition isRealX402Proof :: "jsval \<Rightarrow> bool" where
  "isRealX402Proof proof =
     (typeofObject proof \<and> proof \<noteq> JNull \<and>
      hasKey ''x402Version'' proof \<and> hasKey ''payload'' proof \<and>
      (case getProp proof ''payload'' of Inl e \<Rightarrow> False | Inr p \<Rightarrow> typeofObject p))"

definition isMockProof :: "jsval \<Rightarrow> bool" where
  "isMockProof proof =
     (typeofObject proof \<and> proof \<noteq> JNull \<and>
      hasKey ''recipient'' proof \<and> hasKey ''amount'' proof \<and> hasKey ''payer'' proof)"





section \<open>Payment verifier (x402-verifier.ts)\<close>

text \<open>The two message templates shared by both proof formats.\<close>

definition recipientMismatchMessage :: "X402VerifierConfig \<Rightarrow> string \<Rightarrow> string" where
  "recipientMismatchMessage cfg rcp =
     ''Payment recipient mismatch: expected '' @ recipientAddress cfg @ '', got '' @ rcp"

definition insufficientMessage :: "platform \<Rightarrow> X402VerifierConfig \<Rightarrow> int \<Rightarrow> string" where
  "insufficientMessage P cfg amt =
     ''Insufficient payment: required '' @ numberToString P (requiredAmountUSDC cfg) @
     '' USDC, got '' @ numberToString P (microToUSDC P amt) @ '' USDC''"

text \<open>
  \<^verbatim>\<open>verifyMockProof\<close>. \<^verbatim>\<open>BigInt(String(proof.amount ?? "0"))\<close> is outside any
  \<^verbatim>\<open>try\<close>; the recipient and amount checks follow in this order.
\<close>

definition verifyMockProof ::
  "platform \<Rightarrow> X402VerifierConfig \<Rightarrow> jsval \<Rightarrow> exn + X402PaymentVerification" where
  "verifyMockProof P cfg proof =
     bindE (getProp proof ''amount'') (\<lambda>a.
     bindE (stringToBigInt (jsString (numberToString P) (nullish a (JStr ''0'')))) (\<lambda>amt.
     bindE (getProp proof ''recipient'') (\<lambda>r.
     bindE (getProp proof ''payer'') (\<lambda>p.
     bindE (getProp proof ''txHash'') (\<lambda>t.
       let rcp = jsString (numberToString P) (nullish r (JStr []));
           pyr = jsString (numberToString P) (nullish p (JStr []));
           txh = (if truthy t then Some (jsString (numberToString P) t) else None)
       in if toLowerCase rcp \<noteq> toLowerCase (recipientAddress cfg)
          then Inr \<lparr>valid = False, amount = amt, recipient = rcp, payer = JStr pyr, txHash = txh,
                    error = Some (recipientMismatchMessage cfg rcp)\<rparr>
          else if amt < toMicroUnits P (requiredAmountUSDC cfg)
          then Inr \<lparr>valid = False, amount = amt, recipient = rcp, payer = JStr pyr, txHash = txh,
                    error = Some (insufficientMessage P cfg amt)\<rparr>
          else Inr \<lparr>valid = True, amount = amt, recipient = rcp, payer = JStr pyr, txHash = txh,
                    error = None\<rparr>)))))"

text \<open>
  The strict-mode tail of \<^verbatim>\<open>verifyRealX402Proof\<close>: everything inside its
  \<^verbatim>\<open>try\<close>. Whatever is thrown there (by \<^verbatim>\<open>BigInt\<close> or by viem) is caught.
\<close>

definition verifySignature ::
  "platform \<Rightarrow> jsval \<Rightarrow> jsval \<Rightarrow> jsval \<Rightarrow> exn + bool" where
  "verifySignature P proof auth pyr =
     bindE (getProp proof ''network'') (\<lambda>net.
     bindE (getProp auth ''from'') (\<lambda>f.
     bindE (getProp auth ''to'') (\<lambda>t.
     bindE (getProp auth ''value'') (\<lambda>v.
     bindE (toBigInt (numberToString P) v) (\<lambda>vn.
     bindE (getProp auth ''validAfter'') (\<lambda>va.
     bindE (toBigInt (numberToString P) va) (\<lambda>van.
     bindE (getProp auth ''validBefore'') (\<lambda>vb.
     bindE (toBigInt (numberToString P) vb) (\<lambda>vbn.
     bindE (getProp auth ''nonce'') (\<lambda>nc.
     bindE (getProp proof ''payload'') (\<lambda>pl.
     bindE (getProp pl ''signature'') (\<lambda>sg.
       verifyTypedData P
         \<lparr>td_address = pyr,
          td_chainId = (if net = JStr ''base'' then 8453 else 84532),
          td_from = f, td_to = t, td_value = vn,
          td_validAfter = van, td_validBefore = vbn,
          td_nonce = nc, td_signature = sg\<rparr>))))))))))))"

text \<open>
  \<^verbatim>\<open>verifyRealX402Proof\<close>, at the clock reading \<open>nowMs\<close>. The reads of
  \<^verbatim>\<open>proof.payload.authorization\<close> and of its fields, \<^verbatim>\<open>BigInt(auth.value ?? "0")\<close>,
  \<^verbatim>\<open>recipient.toLowerCase()\<close> and the two \<^verbatim>\<open>toISOString()\<close> calls are outside any
  \<^verbatim>\<open>try\<close>. A comparison with \<^verbatim>\<open>NaN\<close> is false, so an unparsable bound passes
  its check.
\<close>

definition verifyRealX402Proof ::
  "platform \<Rightarrow> int \<Rightarrow> X402VerifierConfig \<Rightarrow> jsval \<Rightarrow> exn + X402PaymentVerification" where
  "verifyRealX402Proof P nowMs cfg proof =
     bindE (getProp proof ''payload'') (\<lambda>pl.
     bindE (getProp pl ''authorization'') (\<lambda>auth.
     bindE (getProp auth ''value'') (\<lambda>v.
     bindE (toBigInt (numberToString P) (nullish v (JStr ''0''))) (\<lambda>amt.
     bindE (getProp auth ''to'') (\<lambda>t.
     bindE (getProp auth ''from'') (\<lambda>f.
     bindE (callToLowerCase ''recipient'' (nullish t (JStr []))) (\<lambda>rl.
       let rcp = jsString (numberToString P) (nullish t (JStr []));
           pyr = nullish f (JStr [])
       in if rl \<noteq> toLowerCase (recipientAddress cfg)
          then Inr \<lparr>valid = False, amount = amt, recipient = rcp, payer = pyr, txHash = None,
                    error = Some (recipientMismatchMessage cfg rcp)\<rparr>
          else if amt < toMicroUnits P (requiredAmountUSDC cfg)
          then Inr \<lparr>valid = False, amount = amt, recipient = rcp, payer = pyr, txHash = None,
                    error = Some (insufficientMessage P cfg amt)\<rparr>
          else
            bindE (getProp auth ''validAfter'') (\<lambda>va.
            bindE (getProp auth ''validBefore'') (\<lambda>vb.
              let now = nowSeconds P nowMs;
                  validAfter = parseInt P (nullish va (JStr ''0''));
                  validBefore = parseInt P (nullish vb (JStr ''0''))
              in if (case validAfter of None \<Rightarrow> False | Some a \<Rightarrow> of_int now < a)
                 then bindE (dateISO P (the validAfter)) (\<lambda>iso.
                        Inr \<lparr>valid = False, amount = amt, recipient = rcp, payer = pyr,
                             txHash = None,
                             error = Some (''Payment not yet valid (validAfter: '' @ iso @ '')'')\<rparr>)
                 else if (case validBefore of None \<Rightarrow> False | Some b \<Rightarrow> b \<le> of_int now)
                 then bindE (dateISO P (the validBefore)) (\<lambda>iso.
                        Inr \<lparr>valid = False, amount = amt, recipient = rcp, payer = pyr,
                             txHash = None,
                             error = Some (''Payment expired (validBefore: '' @ iso @ '')'')\<rparr>)
                 else if simulationMode cfg = Some True
                 then Inr \<lparr>valid = True, amount = amt, recipient = rcp, payer = pyr,
                           txHash = None, error = None\<rparr>
                 else (case verifySignature P proof auth pyr of
                         Inl err \<Rightarrow>
                           Inr \<lparr>valid = False, amount = amt, recipient = rcp, payer = pyr,
                                txHash = None,
                                error = Some (''EIP-712 verification error: '' @ message err)\<rparr>
                       | Inr ok \<Rightarrow>
                           if \<not> ok
                           then Inr \<lparr>valid = False, amount = amt, recipient = rcp, payer = pyr,
                                     txHash = None,
                                     error = Some ''EIP-712 signature verification failed: signer does not match authorization.from''\<rparr>
                           else Inr \<lparr>valid = True, amount = amt, recipient = rcp, payer = pyr,
                                     txHash = None, error = None\<rparr>))))))))))"

text \<open>\<^verbatim>\<open>X402Verifier.verify\<close>, at the clock reading \<open>nowMs\<close>.\<close>

definition verify ::
  "platform \<Rightarrow> int \<Rightarrow> X402VerifierConfig \<Rightarrow> string \<Rightarrow> exn + X402PaymentVerification" where
  "verify P nowMs cfg paymentProof =
     (if paymentProof = []
      then Inr \<lparr>valid = False, amount = 0, recipient = [], payer = JStr [], txHash = None,
                error = Some ''Missing x402 payment proof (x-payment header required)''\<rparr>
      else case decodePaymentProof P paymentProof of
             Inl err \<Rightarrow>
               Inr \<lparr>valid = False, amount = 0, recipient = [], payer = JStr [], txHash = None,
                    error = Some (''Failed to decode payment proof: '' @ message err)\<rparr>
           | Inr decoded \<Rightarrow>
               if isRealX402Proof decoded then verifyRealX402Proof P nowMs cfg decoded
               else if isMockProof decoded then verifyMockProof P cfg decoded
               else Inr \<lparr>valid = False, amount = 0, recipient = [], payer = JStr [], txHash = None,
                         error = Some ''Unrecognized payment proof format''\<rparr>)"

section \<open>Workflow registry (cre-registry.ts)\<close>

text \<open>
  A handler is an asynchronous function with effects of its own (the built-in ones read
  the clock and \<^verbatim>\<open>Math.random\<close>; a test handler increments a counter). It is modelled
  as a function from the payload and the state of the world \<open>'w\<close> to its outcome (a
  returned value, or the exception it throws) and the new state of the world. The world
  changes only when a handler runs.
\<close>

datatype triggerKind = Http | Cron | EvmLog

datatype workflowStatus = WfSuccess | WfFailed | WfPending

record 'w CREWorkflowDefinition =
  name :: string
  description :: string
  priceUSDC :: rat
  trigger :: triggerKind
  live :: bool
  handler :: "jsval \<Rightarrow> 'w \<Rightarrow> (exn + jsval) \<times> 'w"

record WorkflowRequest =
  requestId :: string
  req_workflowName :: string
  payload :: jsval
  paymentProof :: "string option"
  createdAt :: string

record WorkflowResult =
  wr_requestId :: string
  wr_workflowName :: string
  wr_status :: workflowStatus
  wr_result :: jsval
  wr_error :: "string option"
  wr_executionMs :: "int option"

text \<open>
  The registry's \<^verbatim>\<open>Map\<close>, in insertion order: setting an existing name replaces its
  definition in place, a new name goes last.
\<close>

type_synonym 'w CREWorkflowRegistry = "(string \<times> 'w CREWorkflowDefinition) list"

definition registerWorkflow ::
  "'w CREWorkflowDefinition \<Rightarrow> 'w CREWorkflowRegistry \<Rightarrow> 'w CREWorkflowRegistry" where
  "registerWorkflow workflow reg = AList.update (name workflow) workflow reg"

text \<open>
  The constructor: \<^verbatim>\<open>BUILT_IN_WORKFLOWS\<close> (taken as the first argument), then the
  caller's workflows, each set by name.
\<close>

definition newRegistry ::
  "'w CREWorkflowDefinition list \<Rightarrow> 'w CREWorkflowDefinition list \<Rightarrow> 'w CREWorkflowRegistry" where
  "newRegistry builtIn workflows = fold registerWorkflow (builtIn @ workflows) []"

definition getWorkflow :: "'w CREWorkflowRegistry \<Rightarrow> string \<Rightarrow> 'w CREWorkflowDefinition option" where
  "getWorkflow reg nm = map_of reg nm"

definition listWorkflows :: "'w CREWorkflowRegistry \<Rightarrow> 'w CREWorkflowDefinition list" where
  "listWorkflows reg = map snd reg"

fun joinWith :: "string \<Rightarrow> string list \<Rightarrow> string" where
  "joinWith sep [] = []"
| "joinWith sep [x] = x"
| "joinWith sep (x # y # ys) = x @ sep @ joinWith sep (y # ys)"

text \<open>
  \<^verbatim>\<open>execute\<close>; \<open>elapsed\<close> is the measured \<^verbatim>\<open>Date.now() - start\<close>. An unknown name
  and a handler that throws both give a failed result, never an exception.
\<close>

definition execute ::
  "'w CREWorkflowRegistry \<Rightarrow> int \<Rightarrow> WorkflowRequest \<Rightarrow> 'w \<Rightarrow> WorkflowResult \<times> 'w" where
  "execute reg elapsed request w =
     (case map_of reg (req_workflowName request) of
        None \<Rightarrow>
          (\<lparr>wr_requestId = requestId request,
            wr_workflowName = req_workflowName request,
            wr_status = WfFailed,
            wr_result = JUndefined,
            wr_error = Some (''Workflow not found: '' @ req_workflowName request @
                             ''. Available: '' @ joinWith '', '' (map fst reg)),
            wr_executionMs = Some elapsed\<rparr>, w)
      | Some workflow \<Rightarrow>
          (case handler workflow (payload request) w of
             (Inr res, w') \<Rightarrow>
               (\<lparr>wr_requestId = requestId request,
                 wr_workflowName = req_workflowName request,
                 wr_status = WfSuccess,
                 wr_result = res,
                 wr_error = None,
                 wr_executionMs = Some elapsed\<rparr>, w')
           | (Inl err, w') \<Rightarrow>
               (\<lparr>wr_requestId = requestId request,
                 wr_workflowName = req_workflowName request,
                 wr_status = WfFailed,
                 wr_result = JUndefined,
                 wr_error = Some (message err),
                 wr_executionMs = Some elapsed\<rparr>, w')))"

section \<open>Payment gateway (payment-gateway.ts)\<close>

record PaymentGatewayConfig =
  gw_recipientAddress :: string
  defaultPriceUSDC :: "rat option"
  gw_simulationMode :: "bool option"
  debug :: "bool option"

record GatewayInvokeResult =
  allowed :: bool
  payment :: X402PaymentVerification
  workflowResult :: "WorkflowResult option"
  pricePaid :: "rat option"
  gw_error :: "string option"

record 'w X402CREPaymentGateway =
  registry :: "'w CREWorkflowRegistry"
  config :: PaymentGatewayConfig

text \<open>
  The constructor: \<^verbatim>\<open>{ defaultPriceUSDC: 0.001, simulationMode: true, ...config }\<close>.
  An optional property that is absent is \<open>None\<close>. The registry is the one given (the
  default, a new registry of the built-in workflows, is \<^const>\<open>newRegistry\<close>).
\<close>

definition newGateway ::
  "PaymentGatewayConfig \<Rightarrow> 'w CREWorkflowRegistry \<Rightarrow> 'w X402CREPaymentGateway" where
  "newGateway cfg reg =
     \<lparr>registry = reg,
      config = cfg\<lparr>defaultPriceUSDC :=
                      (case defaultPriceUSDC cfg of None \<Rightarrow> Some (1 / 1000) | Some d \<Rightarrow> Some d),
                    gw_simulationMode :=
                      (case gw_simulationMode cfg of None \<Rightarrow> Some True | Some b \<Rightarrow> Some b)\<rparr>\<rparr>"

text \<open>
  What a call reads from its surroundings: the verifier's clock reading, the
  \<^verbatim>\<open>uuidv4()\<close> and the \<^verbatim>\<open>new Date().toISOString()\<close> of the request, and the
  registry's measured execution time.
\<close>

record ambient =
  amb_nowMs :: int
  amb_uuid :: string
  amb_isoNow :: string
  amb_elapsedMs :: int

text \<open>
  \<^verbatim>\<open>workflow?.priceUSDC ?? this.config.defaultPriceUSDC ?? 0.001\<close>
\<close>

definition requiredPriceOf :: "'w X402CREPaymentGateway \<Rightarrow> string \<Rightarrow> rat" where
  "requiredPriceOf G workflowName =
     (case getWorkflow (registry G) workflowName of
        Some workflow \<Rightarrow> priceUSDC workflow
      | None \<Rightarrow> (case defaultPriceUSDC (config G) of Some d \<Rightarrow> d | None \<Rightarrow> 1 / 1000))"

text \<open>The configuration of the verifier that \<^verbatim>\<open>invoke\<close> constructs.\<close>

definition verifierConfigOf :: "'w X402CREPaymentGateway \<Rightarrow> string \<Rightarrow> X402VerifierConfig" where
  "verifierConfigOf G workflowName =
     \<lparr>recipientAddress = gw_recipientAddress (config G),
      requiredAmountUSDC = requiredPriceOf G workflowName,
      simulationMode = gw_simulationMode (config G),
      rpcUrl = None,
      network = None\<rparr>"

text \<open>
  \<^verbatim>\<open>invoke\<close>: verify, then execute. An exception of \<^verbatim>\<open>verify\<close> is not caught here.
  (The debug log lines are left out.)
\<close>

definition invoke ::
  "platform \<Rightarrow> ambient \<Rightarrow> 'w X402CREPaymentGateway \<Rightarrow> string \<Rightarrow> jsval \<Rightarrow> string \<Rightarrow> 'w \<Rightarrow>
     (exn + GatewayInvokeResult) \<times> 'w" where
  "invoke P amb G workflowName pl proof w =
     (let requiredPrice = requiredPriceOf G workflowName
      in case verify P (amb_nowMs amb) (verifierConfigOf G workflowName) proof of
           Inl err \<Rightarrow> (Inl err, w)
         | Inr pay \<Rightarrow>
             if \<not> valid pay
             then (Inr \<lparr>allowed = False, payment = pay, workflowResult = None, pricePaid = None,
                        gw_error = Some (case error pay of
                                           Some e \<Rightarrow> e
                                         | None \<Rightarrow> ''Payment verification failed'')\<rparr>, w)
             else (case execute (registry G) (amb_elapsedMs amb)
                          \<lparr>requestId = amb_uuid amb,
                           req_workflowName = workflowName,
                           payload = pl,
                           paymentProof = Some proof,
                           createdAt = amb_isoNow amb\<rparr> w of
                     (res, w') \<Rightarrow>
                       (Inr \<lparr>allowed = True, payment = pay, workflowResult = Some res,
                             pricePaid = Some requiredPrice, gw_error = None\<rparr>, w')))"

record AgentTaskRequest =
  task :: string
  params :: jsval
  maxBudgetUSDC :: "rat option"

record AgentOrchestrationResult =
  taskId :: string
  ao_task :: string
  workflowsInvoked :: "string list"
  ao_totalSpentUSDC :: rat
  ao_result :: jsval
  paymentGated :: bool

text \<open>The keyword routing of \<^verbatim>\<open>orchestrateAgentTask\<close>.\<close>

definition routeTask :: "string \<Rightarrow> string" where
  "routeTask t =
     (if includes_str (toLowerCase t) ''price'' \<or> includes_str (toLowerCase t) ''token''
      then ''price-feed''
      else if includes_str (toLowerCase t) ''weather'' then ''weather-oracle''
      else if includes_str (toLowerCase t) ''compute'' \<or> includes_str (toLowerCase t) ''calculate''
      then ''compute-task''
      else ''agent-task-dispatch'')"

text \<open>
  \<^verbatim>\<open>orchestrateAgentTask\<close>; \<open>tid\<close> is its \<^verbatim>\<open>uuidv4()\<close>. A denial of \<^verbatim>\<open>invoke\<close>
  becomes a thrown \<^verbatim>\<open>Error\<close>.
\<close>

definition orchestrateAgentTask ::
  "platform \<Rightarrow> ambient \<Rightarrow> string \<Rightarrow> 'w X402CREPaymentGateway \<Rightarrow> AgentTaskRequest \<Rightarrow> string \<Rightarrow> 'w \<Rightarrow>
     (exn + AgentOrchestrationResult) \<times> 'w" where
  "orchestrateAgentTask P amb tid G tk proof w =
     (let workflowName = routeTask (task tk)
      in case invoke P amb G workflowName
                (nullish (params tk) (JObj [(''task'', JStr (task tk))])) proof w of
           (Inl err, w') \<Rightarrow> (Inl err, w')
         | (Inr res, w') \<Rightarrow>
             if allowed res \<and> workflowResult res \<noteq> None
             then (Inr \<lparr>taskId = tid,
                        ao_task = task tk,
                        workflowsInvoked = [workflowName],
                        ao_totalSpentUSDC =
                          fl P (0 + (case pricePaid res of Some p \<Rightarrow> p | None \<Rightarrow> 0)),
                        ao_result = wr_result (the (workflowResult res)),
                        paymentGated = True\<rparr>, w')
             else (Inl (Error (case gw_error res of
                                 Some e \<Rightarrow> e
                               | None \<Rightarrow> ''Gateway denied request'')), w'))"

section \<open>Workflow orchestrator (workflow-orchestrator.ts)\<close>

text \<open>
  The orchestrator drives an \<^verbatim>\<open>AgentClient\<close>, whose \<^verbatim>\<open>invoke\<close> makes HTTP requests. It
  is modelled like a handler: a function from the workflow name, the payload and the
  state of the world to its outcome (a result, or the exception of a network-level
  fault) and the new state of the world.
\<close>

record InvokeMeta =
  meta_requestId :: "string option"
  meta_workflowName :: "string option"
  meta_executionMs :: "int option"
  meta_pricePaid :: "rat option"
  paymentTx :: "string option"

record AgentInvokeResult =
  success :: bool
  air_result :: jsval
  meta :: "InvokeMeta option"
  air_error :: "string option"
  paymentUsed :: "string option"

type_synonym 'w agentInvoke = "string \<Rightarrow> jsval \<Rightarrow> 'w \<Rightarrow> (exn + AgentInvokeResult) \<times> 'w"

record OrchestrationStep =
  os_workflowName :: string
  os_payload :: "jsval option"

datatype chainItem = Name string | Step OrchestrationStep

type_synonym payloadTransformer = "jsval \<Rightarrow> string \<Rightarrow> nat \<Rightarrow> exn + jsval"

record OrchestrationConfig =
  continueOnFailure :: "bool option"
  initialPayload :: "jsval option"
  payloadTransformer :: "payloadTransformer option"

datatype stepStatus = Success | Failed | Skipped

datatype orchestrationStatus = Completed | Partial | OrchestrationFailed

record StepResult =
  sr_workflowName :: string
  stepIndex :: nat
  sr_status :: stepStatus
  sr_result :: "jsval option"
  sr_error :: "string option"
  sr_paymentProof :: "string option"
  sr_executionMs :: "int option"
  spentUSDC :: "rat option"

record OrchestrationResult =
  orchestrationId :: string
  workflowChain :: "string list"
  steps :: "StepResult list"
  finalResult :: jsval
  totalSpentUSDC :: rat
  stepsCompleted :: nat
  or_status :: orchestrationStatus
  startedAt :: string
  completedAt :: string

definition normalizeChain :: "chainItem list \<Rightarrow> OrchestrationStep list" where
  "normalizeChain chain =
     map (\<lambda>item. case item of
                   Name n \<Rightarrow> \<lparr>os_workflowName = n, os_payload = None\<rparr>
                 | Step st \<Rightarrow> st) chain"

text \<open>
  \<^verbatim>\<open>defaultTransformer\<close>: an object result is spread and given the property
  \<^verbatim>\<open>previousResult\<close> (in place when it has one already, last otherwise).
\<close>

fun defaultTransformer :: payloadTransformer where
  "defaultTransformer (JObj kvs) nextWorkflow i =
     Inr (JObj (AList.update ''previousResult'' (JObj kvs) kvs))"
| "defaultTransformer stepResult nextWorkflow i =
     Inr (JObj [(''previousResult'', stepResult)])"

text \<open>The variables of the loop of \<^verbatim>\<open>orchestrate\<close>.\<close>

record orchestrateState =
  stepResults :: "StepResult list"
  currentPayload :: jsval
  totalSpent :: rat
  lastSuccessResult :: jsval
  hasFailure :: bool

text \<open>
  What a run reads from its surroundings: its \<^verbatim>\<open>uuidv4()\<close>, the two timestamps, and
  for each step index the measured \<^verbatim>\<open>Date.now() - stepStart\<close>.
\<close>

record orchestrateAmbient =
  oa_uuid :: string
  oa_startedAt :: string
  oa_completedAt :: string
  oa_elapsedMs :: "nat \<Rightarrow> int"

text \<open>
  One iteration of the loop, for step \<open>i\<close> with the steps \<open>rest\<close> after it. The
  amount of a successful invocation is added to the total before the transformer
  runs; a transformer that throws rewrites the status of the step just pushed and
  leaves the total as it is.
\<close>

definition orchestrateStep ::
  "platform \<Rightarrow> (nat \<Rightarrow> int) \<Rightarrow> 'w agentInvoke \<Rightarrow> bool \<Rightarrow> payloadTransformer \<Rightarrow>
     nat \<Rightarrow> OrchestrationStep \<Rightarrow> OrchestrationStep list \<Rightarrow> orchestrateState \<Rightarrow> 'w \<Rightarrow>
     orchestrateState \<times> 'w" where
  "orchestrateStep P elapsed clientInvoke cont transformer i step rest st w =
     (if hasFailure st \<and> \<not> cont
      then (st\<lparr>stepResults := stepResults st @
                 [\<lparr>sr_workflowName = os_workflowName step, stepIndex = i, sr_status = Skipped,
                   sr_result = None, sr_error = None, sr_paymentProof = None,
                   sr_executionMs = None, spentUSDC = None\<rparr>]\<rparr>, w)
      else
        case clientInvoke (os_workflowName step)
               (case os_payload step of Some p \<Rightarrow> p | None \<Rightarrow> currentPayload st) w of
          (Inl err, w') \<Rightarrow>
            (st\<lparr>hasFailure := True,
                stepResults := stepResults st @
                 [\<lparr>sr_workflowName = os_workflowName step, stepIndex = i, sr_status = Failed,
                   sr_result = None, sr_error = Some (message err), sr_paymentProof = None,
                   sr_executionMs = Some (elapsed i), spentUSDC = None\<rparr>]\<rparr>, w')
        | (Inr invokeResult, w') \<Rightarrow>
            if \<not> success invokeResult
            then
              (st\<lparr>hasFailure := True,
                  stepResults := stepResults st @
                   [\<lparr>sr_workflowName = os_workflowName step, stepIndex = i, sr_status = Failed,
                     sr_result = None,
                     sr_error = Some (case air_error invokeResult of
                                        Some e \<Rightarrow> e
                                      | None \<Rightarrow> ''Workflow invocation failed''),
                     sr_paymentProof = paymentUsed invokeResult,
                     sr_executionMs = Some (elapsed i), spentUSDC = None\<rparr>]\<rparr>, w')
            else
              let paid = (case meta invokeResult of
                            None \<Rightarrow> 0
                          | Some m \<Rightarrow> (case meta_pricePaid m of None \<Rightarrow> 0 | Some p \<Rightarrow> p));
                  st1 = st\<lparr>totalSpent := fl P (totalSpent st + paid),
                           lastSuccessResult := air_result invokeResult,
                           stepResults := stepResults st @
                            [\<lparr>sr_workflowName = os_workflowName step, stepIndex = i,
                              sr_status = Success,
                              sr_result = Some (air_result invokeResult), sr_error = None,
                              sr_paymentProof = paymentUsed invokeResult,
                              sr_executionMs = Some (elapsed i), spentUSDC = Some paid\<rparr>]\<rparr>
              in (case rest of
                   [] \<Rightarrow> (st1, w')
                 | nxt # others \<Rightarrow>
                     (case transformer (air_result invokeResult) (os_workflowName nxt) i of
                        Inr p \<Rightarrow> (st1\<lparr>currentPayload := p\<rparr>, w')
                      | Inl transformErr \<Rightarrow>
                          (st1\<lparr>hasFailure := True,
                               stepResults :=
                                 list_update (stepResults st1) (length (stepResults st1) - 1)
                                   ((stepResults st1 ! (length (stepResults st1) - 1))
                                      \<lparr>sr_status := Failed,
                                       sr_error := Some (''Payload transformer error: '' @
                                                         message transformErr)\<rparr>)\<rparr>, w'))))"

text \<open>The loop \<^verbatim>\<open>for (let i = 0; i < steps.length; i++)\<close>, from index \<open>i\<close> on.\<close>

fun orchestrateLoop ::
  "platform \<Rightarrow> (nat \<Rightarrow> int) \<Rightarrow> 'w agentInvoke \<Rightarrow> bool \<Rightarrow> payloadTransformer \<Rightarrow>
     nat \<Rightarrow> OrchestrationStep list \<Rightarrow> orchestrateState \<Rightarrow> 'w \<Rightarrow> orchestrateState \<times> 'w" where
  "orchestrateLoop P elapsed clientInvoke cont transformer i [] st w = (st, w)"
| "orchestrateLoop P elapsed clientInvoke cont transformer i (step # rest) st w =
     (case orchestrateStep P elapsed clientInvoke cont transformer i step rest st w of
        (st', w') \<Rightarrow> orchestrateLoop P elapsed clientInvoke cont transformer (Suc i) rest st' w')"

definition finalStatus :: "bool \<Rightarrow> StepResult list \<Rightarrow> orchestrationStatus" where
  "finalStatus cont srs =
     (let successCount = length (filter (\<lambda>s. sr_status s = Success) srs);
          failedCount = length (filter (\<lambda>s. sr_status s = Failed) srs)
      in if failedCount = 0 then Completed
         else if cont \<and> successCount > 0 then Partial
         else OrchestrationFailed)"

definition orchestrate ::
  "platform \<Rightarrow> orchestrateAmbient \<Rightarrow> 'w agentInvoke \<Rightarrow> chainItem list \<Rightarrow> OrchestrationConfig \<Rightarrow> 'w \<Rightarrow>
     OrchestrationResult \<times> 'w" where
  "orchestrate P amb clientInvoke chain cfg w =
     (let chainSteps = normalizeChain chain;
          cont = (case continueOnFailure cfg of Some b \<Rightarrow> b | None \<Rightarrow> False);
          transformer = (case payloadTransformer cfg of Some f \<Rightarrow> f | None \<Rightarrow> defaultTransformer)
      in case orchestrateLoop P (oa_elapsedMs amb) clientInvoke cont transformer 0 chainSteps
                \<lparr>stepResults = [],
                 currentPayload = (case initialPayload cfg of Some p \<Rightarrow> p | None \<Rightarrow> JObj []),
                 totalSpent = 0,
                 lastSuccessResult = JUndefined,
                 hasFailure = False\<rparr> w of
           (st, w') \<Rightarrow>
             (\<lparr>orchestrationId = oa_uuid amb,
               workflowChain = map os_workflowName chainSteps,
               steps = stepResults st,
               finalResult = lastSuccessResult st,
               totalSpentUSDC = totalSpent st,
               stepsCompleted = length (filter (\<lambda>s. sr_status s \<noteq> Skipped) (stepResults st)),
               or_status = finalStatus cont (stepResults st),
               startedAt = oa_startedAt amb,
               completedAt = oa_completedAt amb\<rparr>, w'))"

section \<open>Batch invocation (agent-client.ts)\<close>

text \<open>
  \<^verbatim>\<open>batchInvoke\<close> starts one \<^verbatim>\<open>this.invoke\<close> per request and awaits
  \<^verbatim>\<open>Promise.allSettled\<close>, which returns the outcomes in the order of the promises
  whatever the order of completion. The outcome of the promise at index \<open>i\<close> is given by
  a function of the index and the request, about which nothing is assumed. A rejection
  carries the \<^verbatim>\<open>message\<close> of its reason, if the reason has one.
\<close>

datatype settled = Fulfilled AgentInvokeResult | Rejected "string option"

datatype batchStatus = BatchSuccess | BatchFailed

record BatchRequest =
  br_workflowName :: string
  br_payload :: jsval

record BatchItemResult =
  bi_workflowName :: string
  index :: nat
  bi_status :: batchStatus
  bi_result :: "AgentInvokeResult option"
  bi_error :: "string option"

record BatchResult =
  totalRequested :: int
  succeeded :: int
  failed :: int
  results :: "BatchItemResult list"
  totalExecutionMs :: int

definition batchItem :: "BatchRequest list \<Rightarrow> nat \<Rightarrow> settled \<Rightarrow> BatchItemResult" where
  "batchItem batch i outcome =
     (let workflowName = br_workflowName (batch ! i)
      in case outcome of
           Fulfilled invokeResult \<Rightarrow>
             if success invokeResult
             then \<lparr>bi_workflowName = workflowName, index = i, bi_status = BatchSuccess,
                   bi_result = Some invokeResult, bi_error = None\<rparr>
             else \<lparr>bi_workflowName = workflowName, index = i, bi_status = BatchFailed,
                   bi_result = Some invokeResult,
                   bi_error = Some (case air_error invokeResult of
                                      Some e \<Rightarrow> e
                                    | None \<Rightarrow> ''Workflow returned failure'')\<rparr>
         | Rejected reason \<Rightarrow>
             \<lparr>bi_workflowName = workflowName, index = i, bi_status = BatchFailed,
              bi_result = None,
              bi_error = Some (case reason of Some m \<Rightarrow> m | None \<Rightarrow> ''Unknown error'')\<rparr>)"

definition batchInvoke ::
  "(nat \<Rightarrow> BatchRequest \<Rightarrow> settled) \<Rightarrow> int \<Rightarrow> BatchRequest list \<Rightarrow> BatchResult" where
  "batchInvoke invokeSettled elapsed batch =
     (let settledAll = map (\<lambda>(i, r). invokeSettled i r) (enumerate 0 batch);
          rs = map (\<lambda>(i, outcome). batchItem batch i outcome) (enumerate 0 settledAll);
          ok = int (length (filter (\<lambda>r. bi_status r = BatchSuccess) rs))
      in \<lparr>totalRequested = int (length batch),
          succeeded = ok,
          failed = int (length batch) - ok,
          results = rs,
          totalExecutionMs = elapsed\<rparr>)"

section \<open>Observing an orchestration run\<close>

text \<open>
  The sum of the \<^verbatim>\<open>spentUSDC\<close> of a list of step results, added up in step order with
  the addition of the loop (\<^verbatim>\<open>totalSpentUSDC += pricePaid\<close>); a step without the
  property adds nothing.
\<close>

definition sumSpent :: "platform \<Rightarrow> StepResult list \<Rightarrow> rat" where
  "sumSpent P srs =
     foldl (\<lambda>acc s. case spentUSDC s of None \<Rightarrow> acc | Some p \<Rightarrow> fl P (acc + p)) 0 srs"

text \<open>
  The total as the specification words it: the sum over exactly the steps whose final
  recorded status is success.
\<close>

definition spentBySuccessfulSteps :: "platform \<Rightarrow> StepResult list \<Rightarrow> rat" where
  "spentBySuccessfulSteps P srs = sumSpent P (filter (\<lambda>s. sr_status s = Success) srs)"

text \<open>
  A client that records the workflow name of every invocation it receives, in order,
  beside the state of the world: what a test observes with a mock of \<^verbatim>\<open>invoke\<close>.
\<close>

definition logged :: "'w agentInvoke \<Rightarrow> ('w \<times> string list) agentInvoke" where
  "logged clientInvoke nm pl wl =
     (case clientInvoke nm pl (fst wl) of (r, w') \<Rightarrow> (r, (w', snd wl @ [nm])))"

text \<open>
  The payload of a step (\<^verbatim>\<open>step.payload ?? currentPayload\<close>) and the amount of a
  successful invocation (\<^verbatim>\<open>invokeResult.meta?.pricePaid ?? 0\<close>), as the loop reads them.
\<close>

definition stepPayload :: "OrchestrationStep \<Rightarrow> orchestrateState \<Rightarrow> jsval" where
  "stepPayload step st = (case os_payload step of Some p \<Rightarrow> p | None \<Rightarrow> currentPayload st)"

definition paidOf :: "AgentInvokeResult \<Rightarrow> rat" where
  "paidOf r = (case meta r of None \<Rightarrow> 0
               | Some m \<Rightarrow> (case meta_pricePaid m of None \<Rightarrow> 0 | Some p \<Rightarrow> p))"


text \<open>
  The shape of a list of recorded statuses, given the policy and the failure flag: the
  flag is set exactly when a step has failed; under continue-on-failure nothing is
  skipped; under stop-on-failure the list is a run of successes, followed, if a step
  has failed, by that one failure and then only skipped steps.
\<close>

definition statusShape :: "bool \<Rightarrow> bool \<Rightarrow> stepStatus list \<Rightarrow> bool" where
  "statusShape cont failure sts =
     ((failure \<longleftrightarrow> Failed \<in> set sts) \<and>
      (if cont then Skipped \<notin> set sts
       else \<exists>k m. sts = replicate k Success @ (if failure then Failed # replicate m Skipped else [])))"

section \<open>Sample inputs\<close>

text \<open>
  The closed theorems of this theory evaluate the code on the inputs of this section.

  A platform given by tables: each entry of the first table is the base64 of a JSON
  text, the text, and the value the text denotes; the second table gives the decimal
  text of some numbers. On the entries of its tables the platform is Node.js (base64
  and JSON both ways, \<^verbatim>\<open>Number\<close> to string); elsewhere it returns empty strings and
  parses nothing. Its arithmetic is exact, it prints every date as the empty string and
  it accepts no signature.
\<close>

definition tablePlatform ::
  "(string \<times> string \<times> jsval) list \<Rightarrow> (rat \<times> string) list \<Rightarrow> platform" where
  "tablePlatform wires nums =
     \<lparr>base64ToUtf8 =
        (\<lambda>s. case map_of (map (\<lambda>(b, t, v). (b, t)) wires) s of Some t \<Rightarrow> t | None \<Rightarrow> []),
      utf8ToBase64 =
        (\<lambda>t. case map_of (map (\<lambda>(b, t, v). (t, b)) wires) t of Some b \<Rightarrow> b | None \<Rightarrow> []),
      jsonParse = (\<lambda>t. map_of (map (\<lambda>(b, t, v). (t, v)) wires) t),
      jsonStringify =
        (\<lambda>v. case map_of (map (\<lambda>(b, t, v). (v, t)) wires) v of Some t \<Rightarrow> t | None \<Rightarrow> []),
      numberToString = (\<lambda>r. case map_of nums r of Some t \<Rightarrow> t | None \<Rightarrow> []),
      fl = (\<lambda>r. r),
      dateToISOString = (\<lambda>ms. []),
      verifyTypedData = (\<lambda>td. Inr False)\<rparr>"

text \<open>A Simple proof whose amount is not a number: the value, its JSON text and the base64 of the text.\<close>

definition badAmountProof :: jsval where
  "badAmountProof =
     JObj [(''txHash'', JStr ''0x01''), (''amount'', JStr ''abc''), (''recipient'',
       JStr ''0x7483a9F237cf8043704D6b17DA31c12BfFF860DD''), (''payer'', JStr
       ''0xAbCd1234567890AbCd1234567890AbCd12345678'')]"

definition badAmountText :: string where
  \<open>badAmountText =
     ''{"txHash":"0x01","amount":"abc","recipient":"0x7483a9F237cf8043704D6b17DA31c12BfFF860DD","payer":"0xAbCd1234567890AbCd1234567890AbCd12345678"}''\<close>

definition badAmountWire :: string where
  "badAmountWire =
     ''eyJ0eEhhc2giOiIweDAxIiwiYW1vdW50IjoiYWJjIiwicmVjaXBpZW50IjoiMHg3NDgzYTlGMjM3Y2Y4MDQzNzA0RDZiMTdEQTMxYzEyQmZGRjg2MEREIiwicGF5ZXIiOiIweEFiQ2QxMjM0NTY3ODkwQWJDZDEyMzQ1Njc4OTBBYkNkMTIzNDU2NzgifQ==''"

text \<open>A Simple proof paying exactly 1000 micro-units: the value, its JSON text and the base64 of the text.\<close>

definition exactSimpleProof :: jsval where
  "exactSimpleProof =
     JObj [(''txHash'', JStr ''0x01''), (''amount'', JStr ''1000''), (''recipient'',
       JStr ''0x7483a9F237cf8043704D6b17DA31c12BfFF860DD''), (''payer'', JStr
       ''0xAbCd1234567890AbCd1234567890AbCd12345678'')]"

definition exactSimpleText :: string where
  \<open>exactSimpleText =
     ''{"txHash":"0x01","amount":"1000","recipient":"0x7483a9F237cf8043704D6b17DA31c12BfFF860DD","payer":"0xAbCd1234567890AbCd1234567890AbCd12345678"}''\<close>

definition exactSimpleWire :: string where
  "exactSimpleWire =
     ''eyJ0eEhhc2giOiIweDAxIiwiYW1vdW50IjoiMTAwMCIsInJlY2lwaWVudCI6IjB4NzQ4M2E5RjIzN2NmODA0MzcwNEQ2YjE3REEzMWMxMkJmRkY4NjBERCIsInBheWVyIjoiMHhBYkNkMTIzNDU2Nzg5MEFiQ2QxMjM0NTY3ODkwQWJDZDEyMzQ1Njc4In0=''"

text \<open>A Simple proof paying 999 micro-units: the value, its JSON text and the base64 of the text.\<close>

definition shortSimpleProof :: jsval where
  "shortSimpleProof =
     JObj [(''txHash'', JStr ''0x01''), (''amount'', JStr ''999''), (''recipient'',
       JStr ''0x7483a9F237cf8043704D6b17DA31c12BfFF860DD''), (''payer'', JStr
       ''0xAbCd1234567890AbCd1234567890AbCd12345678'')]"

definition shortSimpleText :: string where
  \<open>shortSimpleText =
     ''{"txHash":"0x01","amount":"999","recipient":"0x7483a9F237cf8043704D6b17DA31c12BfFF860DD","payer":"0xAbCd1234567890AbCd1234567890AbCd12345678"}''\<close>

definition shortSimpleWire :: string where
  "shortSimpleWire =
     ''eyJ0eEhhc2giOiIweDAxIiwiYW1vdW50IjoiOTk5IiwicmVjaXBpZW50IjoiMHg3NDgzYTlGMjM3Y2Y4MDQzNzA0RDZiMTdEQTMxYzEyQmZGRjg2MEREIiwicGF5ZXIiOiIweEFiQ2QxMjM0NTY3ODkwQWJDZDEyMzQ1Njc4OTBBYkNkMTIzNDU2NzgifQ==''"

text \<open>A Delegated proof whose validBefore is not a number: the value, its JSON text and the base64 of the text.\<close>

definition neverExpiresProof :: jsval where
  "neverExpiresProof =
     JObj [(''x402Version'', JNum 1), (''scheme'', JStr ''exact''), (''network'', JStr
       ''base-sepolia''), (''payload'', JObj [(''signature'', JStr ''0x00''),
       (''authorization'', JObj [(''from'', JStr
       ''0xAbCd1234567890AbCd1234567890AbCd12345678''), (''to'', JStr
       ''0x7483a9F237cf8043704D6b17DA31c12BfFF860DD''), (''value'', JStr ''5000''),
       (''validAfter'', JStr ''0''), (''validBefore'', JStr ''never''), (''nonce'',
       JStr ''0x01'')])])]"

definition neverExpiresText :: string where
  \<open>neverExpiresText =
     ''{"x402Version":1,"scheme":"exact","network":"base-sepolia","payload":{"signature":"0x00","authorization":{"from":"0xAbCd1234567890AbCd1234567890AbCd12345678","to":"0x7483a9F237cf8043704D6b17DA31c12BfFF860DD","value":"5000","validAfter":"0","validBefore":"never","nonce":"0x01"}}}''\<close>

definition neverExpiresWire :: string where
  "neverExpiresWire =
     ''eyJ4NDAyVmVyc2lvbiI6MSwic2NoZW1lIjoiZXhhY3QiLCJuZXR3b3JrIjoiYmFzZS1zZXBvbGlhIiwicGF5bG9hZCI6eyJzaWduYXR1cmUiOiIweDAwIiwiYXV0aG9yaXphdGlvbiI6eyJmcm9tIjoiMHhBYkNkMTIzNDU2Nzg5MEFiQ2QxMjM0NTY3ODkwQWJDZDEyMzQ1Njc4IiwidG8iOiIweDc0ODNhOUYyMzdjZjgwNDM3MDRENmIxN0RBMzFjMTJCZkZGODYwREQiLCJ2YWx1ZSI6IjUwMDAiLCJ2YWxpZEFmdGVyIjoiMCIsInZhbGlkQmVmb3JlIjoibmV2ZXIiLCJub25jZSI6IjB4MDEifX19''"

text \<open>A Delegated proof paying exactly 1000 micro-units, valid until 2100: the value, its JSON text and the base64 of the text.\<close>

definition exactDelegatedProof :: jsval where
  "exactDelegatedProof =
     JObj [(''x402Version'', JNum 1), (''scheme'', JStr ''exact''), (''network'', JStr
       ''base-sepolia''), (''payload'', JObj [(''signature'', JStr ''0x00''),
       (''authorization'', JObj [(''from'', JStr
       ''0xAbCd1234567890AbCd1234567890AbCd12345678''), (''to'', JStr
       ''0x7483a9F237cf8043704D6b17DA31c12BfFF860DD''), (''value'', JStr ''1000''),
       (''validAfter'', JStr ''0''), (''validBefore'', JStr ''4102444800''),
       (''nonce'', JStr ''0x01'')])])]"

definition exactDelegatedText :: string where
  \<open>exactDelegatedText =
     ''{"x402Version":1,"scheme":"exact","network":"base-sepolia","payload":{"signature":"0x00","authorization":{"from":"0xAbCd1234567890AbCd1234567890AbCd12345678","to":"0x7483a9F237cf8043704D6b17DA31c12BfFF860DD","value":"1000","validAfter":"0","validBefore":"4102444800","nonce":"0x01"}}}''\<close>

definition exactDelegatedWire :: string where
  "exactDelegatedWire =
     ''eyJ4NDAyVmVyc2lvbiI6MSwic2NoZW1lIjoiZXhhY3QiLCJuZXR3b3JrIjoiYmFzZS1zZXBvbGlhIiwicGF5bG9hZCI6eyJzaWduYXR1cmUiOiIweDAwIiwiYXV0aG9yaXphdGlvbiI6eyJmcm9tIjoiMHhBYkNkMTIzNDU2Nzg5MEFiQ2QxMjM0NTY3ODkwQWJDZDEyMzQ1Njc4IiwidG8iOiIweDc0ODNhOUYyMzdjZjgwNDM3MDRENmIxN0RBMzFjMTJCZkZGODYwREQiLCJ2YWx1ZSI6IjEwMDAiLCJ2YWxpZEFmdGVyIjoiMCIsInZhbGlkQmVmb3JlIjoiNDEwMjQ0NDgwMCIsIm5vbmNlIjoiMHgwMSJ9fX0=''"

text \<open>A Delegated proof paying 999 micro-units: the value, its JSON text and the base64 of the text.\<close>

definition shortDelegatedProof :: jsval where
  "shortDelegatedProof =
     JObj [(''x402Version'', JNum 1), (''scheme'', JStr ''exact''), (''network'', JStr
       ''base-sepolia''), (''payload'', JObj [(''signature'', JStr ''0x00''),
       (''authorization'', JObj [(''from'', JStr
       ''0xAbCd1234567890AbCd1234567890AbCd12345678''), (''to'', JStr
       ''0x7483a9F237cf8043704D6b17DA31c12BfFF860DD''), (''value'', JStr ''999''),
       (''validAfter'', JStr ''0''), (''validBefore'', JStr ''4102444800''),
       (''nonce'', JStr ''0x01'')])])]"

definition shortDelegatedText :: string where
  \<open>shortDelegatedText =
     ''{"x402Version":1,"scheme":"exact","network":"base-sepolia","payload":{"signature":"0x00","authorization":{"from":"0xAbCd1234567890AbCd1234567890AbCd12345678","to":"0x7483a9F237cf8043704D6b17DA31c12BfFF860DD","value":"999","validAfter":"0","validBefore":"4102444800","nonce":"0x01"}}}''\<close>

definition shortDelegatedWire :: string where
  "shortDelegatedWire =
     ''eyJ4NDAyVmVyc2lvbiI6MSwic2NoZW1lIjoiZXhhY3QiLCJuZXR3b3JrIjoiYmFzZS1zZXBvbGlhIiwicGF5bG9hZCI6eyJzaWduYXR1cmUiOiIweDAwIiwiYXV0aG9yaXphdGlvbiI6eyJmcm9tIjoiMHhBYkNkMTIzNDU2Nzg5MEFiQ2QxMjM0NTY3ODkwQWJDZDEyMzQ1Njc4IiwidG8iOiIweDc0ODNhOUYyMzdjZjgwNDM3MDRENmIxN0RBMzFjMTJCZkZGODYwREQiLCJ2YWx1ZSI6Ijk5OSIsInZhbGlkQWZ0ZXIiOiIwIiwidmFsaWRCZWZvcmUiOiI0MTAyNDQ0ODAwIiwibm9uY2UiOiIweDAxIn19fQ==''"

text \<open>The proof createMockPaymentProof builds for 0.001 USDC: the value, its JSON text and the base64 of the text.\<close>

definition createdMockProof :: jsval where
  "createdMockProof =
     JObj [(''txHash'', JStr
       ''0x8c1f4a2b6d3e9000000000000000000000000000000000000000000000000000''),
       (''amount'', JStr ''1000''), (''recipient'', JStr
       ''0x7483a9F237cf8043704D6b17DA31c12BfFF860DD''), (''payer'', JStr
       ''0xAbCd1234567890AbCd1234567890AbCd12345678''), (''signature'', JStr
       ''0x3e2a7b915c4d8000000000000000000000000000000000000000000000000000000000000000000000000000000000000000000000000000000000000000000000''),
       (''timestamp'', JNum 1700000000000), (''network'', JStr ''base-sepolia'')]"

definition createdMockText :: string where
  \<open>createdMockText =
     ''{"txHash":"0x8c1f4a2b6d3e9000000000000000000000000000000000000000000000000000","amount":"1000","recipient":"0x7483a9F237cf8043704D6b17DA31c12BfFF860DD","payer":"0xAbCd1234567890AbCd1234567890AbCd12345678","signature":"0x3e2a7b915c4d8000000000000000000000000000000000000000000000000000000000000000000000000000000000000000000000000000000000000000000000","timestamp":1700000000000,"network":"base-sepolia"}''\<close>

definition createdMockWire :: string where
  "createdMockWire =
     ''eyJ0eEhhc2giOiIweDhjMWY0YTJiNmQzZTkwMDAwMDAwMDAwMDAwMDAwMDAwMDAwMDAwMDAwMDAwMDAwMDAwMDAwMDAwMDAwMDAwMDAiLCJhbW91bnQiOiIxMDAwIiwicmVjaXBpZW50IjoiMHg3NDgzYTlGMjM3Y2Y4MDQzNzA0RDZiMTdEQTMxYzEyQmZGRjg2MEREIiwicGF5ZXIiOiIweEFiQ2QxMjM0NTY3ODkwQWJDZDEyMzQ1Njc4OTBBYkNkMTIzNDU2NzgiLCJzaWduYXR1cmUiOiIweDNlMmE3YjkxNWM0ZDgwMDAwMDAwMDAwMDAwMDAwMDAwMDAwMDAwMDAwMDAwMDAwMDAwMDAwMDAwMDAwMDAwMDAwMDAwMDAwMDAwMDAwMDAwMDAwMDAwMDAwMDAwMDAwMDAwMDAwMDAwMDAwMDAwMDAwMDAwMDAwMDAwMDAwMDAwMDAiLCJ0aW1lc3RhbXAiOjE3MDAwMDAwMDAwMDAsIm5ldHdvcmsiOiJiYXNlLXNlcG9saWEifQ==''"

text \<open>The proof createRealX402Proof builds for 0.005 USDC: the value, its JSON text and the base64 of the text.\<close>

definition createdRealProof :: jsval where
  "createdRealProof =
     JObj [(''x402Version'', JNum 1), (''scheme'', JStr ''exact''), (''network'', JStr
       ''base-sepolia''), (''payload'', JObj [(''signature'', JStr
       ''0x3e2a7b915c4d8000000000000000000000000000000000000000000000000000000000000000000000000000000000000000000000000000000000000000000000''),
       (''authorization'', JObj [(''from'', JStr
       ''0xAbCd1234567890AbCd1234567890AbCd12345678''), (''to'', JStr
       ''0x7483a9F237cf8043704D6b17DA31c12BfFF860DD''), (''value'', JStr ''5000''),
       (''validAfter'', JStr ''1699999940''), (''validBefore'', JStr ''1700000300''),
       (''nonce'', JStr
       ''0x8c1f4a2b6d3e9000000000000000000000000000000000000000000000000000'')])])]"

definition createdRealText :: string where
  \<open>createdRealText =
     ''{"x402Version":1,"scheme":"exact","network":"base-sepolia","payload":{"signature":"0x3e2a7b915c4d8000000000000000000000000000000000000000000000000000000000000000000000000000000000000000000000000000000000000000000000","authorization":{"from":"0xAbCd1234567890AbCd1234567890AbCd12345678","to":"0x7483a9F237cf8043704D6b17DA31c12BfFF860DD","value":"5000","validAfter":"1699999940","validBefore":"1700000300","nonce":"0x8c1f4a2b6d3e9000000000000000000000000000000000000000000000000000"}}}''\<close>

definition createdRealWire :: string where
  "createdRealWire =
     ''eyJ4NDAyVmVyc2lvbiI6MSwic2NoZW1lIjoiZXhhY3QiLCJuZXR3b3JrIjoiYmFzZS1zZXBvbGlhIiwicGF5bG9hZCI6eyJzaWduYXR1cmUiOiIweDNlMmE3YjkxNWM0ZDgwMDAwMDAwMDAwMDAwMDAwMDAwMDAwMDAwMDAwMDAwMDAwMDAwMDAwMDAwMDAwMDAwMDAwMDAwMDAwMDAwMDAwMDAwMDAwMDAwMDAwMDAwMDAwMDAwMDAwMDAwMDAwMDAwMDAwMDAwMDAwMDAwMDAwMDAwMDAiLCJhdXRob3JpemF0aW9uIjp7ImZyb20iOiIweEFiQ2QxMjM0NTY3ODkwQWJDZDEyMzQ1Njc4OTBBYkNkMTIzNDU2NzgiLCJ0byI6IjB4NzQ4M2E5RjIzN2NmODA0MzcwNEQ2YjE3REEzMWMxMkJmRkY4NjBERCIsInZhbHVlIjoiNTAwMCIsInZhbGlkQWZ0ZXIiOiIxNjk5OTk5OTQwIiwidmFsaWRCZWZvcmUiOiIxNzAwMDAwMzAwIiwibm9uY2UiOiIweDhjMWY0YTJiNmQzZTkwMDAwMDAwMDAwMDAwMDAwMDAwMDAwMDAwMDAwMDAwMDAwMDAwMDAwMDAwMDAwMDAwMDAifX19''"

definition samplePlatform :: platform where
  "samplePlatform =
     tablePlatform
       [(badAmountWire, badAmountText, badAmountProof),
        (exactSimpleWire, exactSimpleText, exactSimpleProof),
        (shortSimpleWire, shortSimpleText, shortSimpleProof),
        (neverExpiresWire, neverExpiresText, neverExpiresProof),
        (exactDelegatedWire, exactDelegatedText, exactDelegatedProof),
        (shortDelegatedWire, shortDelegatedText, shortDelegatedProof),
        (createdMockWire, createdMockText, createdMockProof),
        (createdRealWire, createdRealText, createdRealProof)]
       [(1 / 1000, ''0.001''), (999 / 1000000, ''0.000999''),
        (1699999940, ''1699999940''), (1700000300, ''1700000300'')]"

definition sampleRecipient :: string where
  "sampleRecipient = ''0x7483a9F237cf8043704D6b17DA31c12BfFF860DD''"

definition samplePayer :: string where
  "samplePayer = ''0xAbCd1234567890AbCd1234567890AbCd12345678''"

text \<open>Verifier configurations asking for 0.001 USDC, in simulation and in strict mode.\<close>

definition simulationConfig :: X402VerifierConfig where
  "simulationConfig =
     \<lparr>recipientAddress = sampleRecipient, requiredAmountUSDC = 1 / 1000,
      simulationMode = Some True, rpcUrl = None, network = None\<rparr>"


text \<open>
  A gateway over one workflow whose handler counts its calls: the state of the world
  is the counter.
\<close>

definition countingWorkflow :: "nat CREWorkflowDefinition" where
  "countingWorkflow =
     \<lparr>name = ''price-feed'', description = ''counts its calls'', priceUSDC = 1 / 1000,
      trigger = Http, live = False, handler = (\<lambda>pl n. (Inr pl, Suc n))\<rparr>"

definition sampleGateway :: "nat X402CREPaymentGateway" where
  "sampleGateway =
     newGateway
       \<lparr>gw_recipientAddress = sampleRecipient, defaultPriceUSDC = None,
        gw_simulationMode = None, debug = None\<rparr>
       (newRegistry [countingWorkflow] [])"

definition sampleAmbient :: ambient where
  "sampleAmbient =
     \<lparr>amb_nowMs = 1700000000000, amb_uuid = ''req-1'',
      amb_isoNow = ''2023-11-14T22:13:20.000Z'', amb_elapsedMs = 3\<rparr>"

definition sampleTask :: AgentTaskRequest where
  "sampleTask = \<lparr>task = ''get current ETH price'', params = JUndefined, maxBudgetUSDC = None\<rparr>"

text \<open>A batch of three requests, the second of which is rejected.\<close>

definition sampleBatch :: "BatchRequest list" where
  "sampleBatch =
     [\<lparr>br_workflowName = ''price-feed'', br_payload = JObj [(''pair'', JStr ''ETH/USD'')]\<rparr>,
      \<lparr>br_workflowName = ''weather-oracle'', br_payload = JObj []\<rparr>,
      \<lparr>br_workflowName = ''compute-task'', br_payload = JObj []\<rparr>]"

definition sampleSettled :: "nat \<Rightarrow> BatchRequest \<Rightarrow> settled" where
  "sampleSettled i r =
     (if i = 1 then Rejected (Some ''fetch failed'')
      else Fulfilled \<lparr>success = True, air_result = JStr (br_workflowName r), meta = None,
                      air_error = None, paymentUsed = None\<rparr>)"

text \<open>
  An orchestration client that charges 0.001 USDC per invocation and fails (a returned
  failure, as for a denial) on the workflow \<^verbatim>\<open>risk-assessment\<close>; the state of the
  world counts the invocations. A transformer that always throws.
\<close>

definition sampleClient :: "nat agentInvoke" where
  "sampleClient nm pl n =
     (if nm = ''risk-assessment''
      then (Inr \<lparr>success = False, air_result = JUndefined, meta = None,
                 air_error = Some ''Payment Required'', paymentUsed = Some ''proof''\<rparr>, Suc n)
      else (Inr \<lparr>success = True, air_result = JObj [(''from'', JStr nm)],
                 meta = Some \<lparr>meta_requestId = None, meta_workflowName = Some nm,
                              meta_executionMs = None, meta_pricePaid = Some (1 / 1000),
                              paymentTx = None\<rparr>,
                 air_error = None, paymentUsed = Some ''proof''\<rparr>, Suc n))"

definition throwingTransformer :: payloadTransformer where
  "throwingTransformer r nm i = Inl (Error ''cannot read result'')"

definition sampleOrchestrateAmbient :: orchestrateAmbient where
  "sampleOrchestrateAmbient =
     \<lparr>oa_uuid = ''run-1'', oa_startedAt = ''2023-11-14T22:13:20.000Z'',
      oa_completedAt = ''2023-11-14T22:13:21.000Z'', oa_elapsedMs = (\<lambda>i. 5)\<rparr>"

definition stopOnFailure :: OrchestrationConfig where
  "stopOnFailure = \<lparr>continueOnFailure = None, initialPayload = None, payloadTransformer = None\<rparr>"

definition stopOnFailureThrowing :: OrchestrationConfig where
  "stopOnFailureThrowing =
     \<lparr>continueOnFailure = None, initialPayload = None,
      payloadTransformer = Some throwingTransformer\<rparr>"

definition threeStepChain :: "chainItem list" where
  "threeStepChain = [Name ''price-feed'', Name ''risk-assessment'', Name ''portfolio-rebalance'']"

definition twoStepChain :: "chainItem list" where
  "twoStepChain = [Name ''price-feed'', Name ''weather-oracle'']"

section \<open>Batch invocation: order and counts\<close>

lemma results_length: "length (results (batchInvoke f el batch)) = length batch"
  by (simp add: batchInvoke_def Let_def)

lemma results_nth:
  assumes "i < length batch"
  shows "results (batchInvoke f el batch) ! i = batchItem batch i (f i (batch ! i))"
  using assms by (simp add: batchInvoke_def Let_def nth_enumerate_eq)

lemma batch_status_partition:
  "length (filter (\<lambda>r. bi_status r = BatchSuccess) rs) +
   length (filter (\<lambda>r. bi_status r = BatchFailed) rs) = length rs"
proof (induction rs)
  case Nil
  then show ?case by simp
next
  case (Cons r rs)
  then show ?case by (cases "bi_status r") auto
qed

text \<open>
  C7. For every list of batch requests and whatever each invocation does,
  \<^verbatim>\<open>batchInvoke\<close> returns one result per request, in the order of the requests: the
  result at index \<open>i\<close> is computed from the \<open>i\<close>-th request and the outcome of the
  \<open>i\<close>-th invocation alone, carries the \<open>i\<close>-th request's workflow name and the index
  \<open>i\<close>, and a rejected invocation is a failed item with the message of the rejection
  (the text \<^verbatim>\<open>Unknown error\<close> when the reason has no message). The counts add up:
  \<open>succeeded + failed = totalRequested\<close>, the number of requests, and they count the
  items of either status.
\<close>

theorem batchInvoke_order_and_counts:
  "length (results (batchInvoke f el batch)) = length batch \<and>
   (\<forall>i < length batch.
      results (batchInvoke f el batch) ! i = batchItem batch i (f i (batch ! i)) \<and>
      bi_workflowName (results (batchInvoke f el batch) ! i) = br_workflowName (batch ! i) \<and>
      index (results (batchInvoke f el batch) ! i) = i \<and>
      (\<forall>m. f i (batch ! i) = Rejected m \<longrightarrow>
         bi_status (results (batchInvoke f el batch) ! i) = BatchFailed \<and>
         bi_error (results (batchInvoke f el batch) ! i) =
           Some (case m of Some t \<Rightarrow> t | None \<Rightarrow> ''Unknown error''))) \<and>
   totalRequested (batchInvoke f el batch) = int (length batch) \<and>
   succeeded (batchInvoke f el batch) + failed (batchInvoke f el batch) =
     totalRequested (batchInvoke f el batch) \<and>
   succeeded (batchInvoke f el batch) =
     int (length (filter (\<lambda>r. bi_status r = BatchSuccess) (results (batchInvoke f el batch)))) \<and>
   failed (batchInvoke f el batch) =
     int (length (filter (\<lambda>r. bi_status r = BatchFailed) (results (batchInvoke f el batch))))"
proof -
  let ?R = "batchInvoke f el batch"
  have len: "length (results ?R) = length batch" by (rule results_length)
  have nth: "\<forall>i < length batch.
      results ?R ! i = batchItem batch i (f i (batch ! i)) \<and>
      bi_workflowName (results ?R ! i) = br_workflowName (batch ! i) \<and>
      index (results ?R ! i) = i \<and>
      (\<forall>m. f i (batch ! i) = Rejected m \<longrightarrow>
         bi_status (results ?R ! i) = BatchFailed \<and>
         bi_error (results ?R ! i) = Some (case m of Some t \<Rightarrow> t | None \<Rightarrow> ''Unknown error''))"
    by (auto simp: results_nth batchItem_def Let_def split: settled.splits)
  have tot: "totalRequested ?R = int (length batch)" by (simp add: batchInvoke_def Let_def)
  have sum: "succeeded ?R + failed ?R = totalRequested ?R" by (simp add: batchInvoke_def Let_def)
  have ok: "succeeded ?R = int (length (filter (\<lambda>r. bi_status r = BatchSuccess) (results ?R)))"
    by (simp add: batchInvoke_def Let_def)
  have "int (length (filter (\<lambda>r. bi_status r = BatchSuccess) (results ?R))) +
        int (length (filter (\<lambda>r. bi_status r = BatchFailed) (results ?R))) = int (length batch)"
    using batch_status_partition[of "results ?R"] len by linarith
  with ok sum tot
  have bad: "failed ?R = int (length (filter (\<lambda>r. bi_status r = BatchFailed) (results ?R)))"
    by linarith
  from len nth tot sum ok bad show ?thesis by blast
qed

theorem batchInvoke_order_and_counts_witness:
  "length (results (batchInvoke sampleSettled 7 sampleBatch)) = 3 \<and>
   map bi_workflowName (results (batchInvoke sampleSettled 7 sampleBatch)) =
     [''price-feed'', ''weather-oracle'', ''compute-task''] \<and>
   bi_status (results (batchInvoke sampleSettled 7 sampleBatch) ! 1) = BatchFailed \<and>
   bi_error (results (batchInvoke sampleSettled 7 sampleBatch) ! 1) = Some ''fetch failed'' \<and>
   succeeded (batchInvoke sampleSettled 7 sampleBatch) = 2 \<and>
   failed (batchInvoke sampleSettled 7 sampleBatch) = 1"
proof -
  have r: "sampleSettled 1 (sampleBatch ! 1) = Rejected (Some ''fetch failed'')"
    by (simp add: sampleSettled_def)
  have l: "(1::nat) < length sampleBatch" by (simp add: sampleBatch_def)
  note t = batchInvoke_order_and_counts[of sampleSettled 7 sampleBatch]
  from t l r
  have "bi_status (results (batchInvoke sampleSettled 7 sampleBatch) ! 1) = BatchFailed \<and>
        bi_error (results (batchInvoke sampleSettled 7 sampleBatch) ! 1) =
          Some (case Some ''fetch failed'' of Some t \<Rightarrow> t | None \<Rightarrow> ''Unknown error'')"
    by blast
  then have "bi_status (results (batchInvoke sampleSettled 7 sampleBatch) ! 1) = BatchFailed \<and>
        bi_error (results (batchInvoke sampleSettled 7 sampleBatch) ! 1) = Some ''fetch failed''"
    by simp
  moreover have "length (results (batchInvoke sampleSettled 7 sampleBatch)) = 3"
    using t by (simp add: sampleBatch_def)
  moreover have "map bi_workflowName (results (batchInvoke sampleSettled 7 sampleBatch)) =
     [''price-feed'', ''weather-oracle'', ''compute-task'']"
    by code_simp
  moreover have "succeeded (batchInvoke sampleSettled 7 sampleBatch) = 2"
    by code_simp
  moreover have "failed (batchInvoke sampleSettled 7 sampleBatch) = 1"
    by code_simp
  ultimately show ?thesis by blast
qed

section \<open>The gate: no valid payment, no execution\<close>

lemma bindE_Inr: "bindE m f = Inr r \<longleftrightarrow> (\<exists>x. m = Inr x \<and> f x = Inr r)"
  by (cases m) (simp_all add: bindE_def)

lemma verifyMockProof_invalid_error:
  "verifyMockProof P cfg obj = Inr r \<Longrightarrow> \<not> valid r \<Longrightarrow> error r \<noteq> None"
  by (auto simp: verifyMockProof_def bindE_Inr Let_def split: if_splits)

lemma verifyRealX402Proof_invalid_error:
  "verifyRealX402Proof P nowMs cfg obj = Inr r \<Longrightarrow> \<not> valid r \<Longrightarrow> error r \<noteq> None"
  unfolding verifyRealX402Proof_def bindE_Inr Let_def
  by (elim exE conjE) (auto simp: bindE_Inr split: if_splits sum.splits)

lemma verify_invalid_error:
  "verify P nowMs cfg w = Inr r \<Longrightarrow> \<not> valid r \<Longrightarrow> error r \<noteq> None"
  by (auto simp: verify_def split: if_splits sum.splits
      dest: verifyMockProof_invalid_error verifyRealX402Proof_invalid_error)







lemma invoke_Inr:
  assumes "invoke P amb G wn pl wire w = (Inr res, w')"
  shows "\<exists>pay. verify P (amb_nowMs amb) (verifierConfigOf G wn) wire = Inr pay \<and>
           payment res = pay \<and> allowed res = valid pay \<and>
           (valid pay \<longrightarrow> workflowResult res \<noteq> None \<and> pricePaid res = Some (requiredPriceOf G wn)) \<and>
           (\<not> valid pay \<longrightarrow> gw_error res = error pay \<and> error pay \<noteq> None \<and> w' = w)"
proof (cases "verify P (amb_nowMs amb) (verifierConfigOf G wn) wire")
  case (Inl e)
  with assms show ?thesis by (simp add: invoke_def Let_def)
next
  case (Inr pay)
  show ?thesis
  proof (cases "valid pay")
    case True
    with assms Inr show ?thesis
      by (auto simp: invoke_def Let_def split: prod.splits)
  next
    case False
    with Inr have "error pay \<noteq> None" by (rule verify_invalid_error)
    then obtain m where "error pay = Some m" by auto
    with False assms Inr show ?thesis
      by (auto simp: invoke_def Let_def)
  qed
qed

section \<open>The task entry point raises where invoke returns a denial\<close>

text \<open>
  C8. \<^verbatim>\<open>orchestrateAgentTask\<close> routes the task, calls \<^verbatim>\<open>invoke\<close> and then: when
  \<^verbatim>\<open>invoke\<close> returned a denial (a result object with \<open>allowed = False\<close>, whose error
  is the verification's error), it raises an \<^verbatim>\<open>Error\<close> with that same message; when
  \<^verbatim>\<open>invoke\<close> returned \<open>allowed = True\<close>, it returns the task result with the invoked
  workflow's name, the price spent and the workflow's output; and an exception of
  \<^verbatim>\<open>invoke\<close> itself passes through.
\<close>

theorem orchestrateAgentTask_raises_on_denial:
  "(case invoke P amb G (routeTask (task tk))
           (nullish (params tk) (JObj [(''task'', JStr (task tk))])) wire w of
      (Inl err, w') \<Rightarrow> orchestrateAgentTask P amb tid G tk wire w = (Inl err, w')
    | (Inr res, w') \<Rightarrow>
        if allowed res
        then orchestrateAgentTask P amb tid G tk wire w =
               (Inr \<lparr>taskId = tid, ao_task = task tk,
                     workflowsInvoked = [routeTask (task tk)],
                     ao_totalSpentUSDC = fl P (0 + requiredPriceOf G (routeTask (task tk))),
                     ao_result = wr_result (the (workflowResult res)),
                     paymentGated = True\<rparr>, w') \<and>
             valid (payment res) \<and> workflowResult res \<noteq> None
        else (\<exists>m. error (payment res) = Some m \<and> gw_error res = Some m \<and>
                  \<not> valid (payment res) \<and> w' = w \<and>
                  orchestrateAgentTask P amb tid G tk wire w = (Inl (Error m), w')))"
proof (cases "invoke P amb G (routeTask (task tk))
           (nullish (params tk) (JObj [(''task'', JStr (task tk))])) wire w")
  case (Pair r w')
  show ?thesis
  proof (cases r)
    case (Inl err)
    with Pair show ?thesis by (simp add: orchestrateAgentTask_def Let_def)
  next
    case (Inr res)
    with Pair have i: "invoke P amb G (routeTask (task tk))
           (nullish (params tk) (JObj [(''task'', JStr (task tk))])) wire w = (Inr res, w')" by simp
    from invoke_Inr[OF i] obtain pay where
      p: "payment res = pay" "allowed res = valid pay"
         "valid pay \<longrightarrow> workflowResult res \<noteq> None \<and> pricePaid res = Some (requiredPriceOf G (routeTask (task tk)))"
         "\<not> valid pay \<longrightarrow> gw_error res = error pay \<and> error pay \<noteq> None \<and> w' = w"
      by blast
    show ?thesis
    proof (cases "allowed res")
      case True
      with p i show ?thesis by (auto simp: orchestrateAgentTask_def Let_def)
    next
      case False
      with p obtain m where "error pay = Some m" "gw_error res = Some m" "w' = w" by auto
      with False p i show ?thesis by (auto simp: orchestrateAgentTask_def Let_def)
    qed
  qed
qed

theorem orchestrateAgentTask_raises_on_denial_witness:
  "orchestrateAgentTask samplePlatform sampleAmbient ''task-1'' sampleGateway sampleTask
     shortSimpleWire (0::nat) =
     (Inl (Error ''Insufficient payment: required 0.001 USDC, got 0.000999 USDC''), 0) \<and>
   orchestrateAgentTask samplePlatform sampleAmbient ''task-1'' sampleGateway sampleTask
     exactSimpleWire (0::nat) =
     (Inr \<lparr>taskId = ''task-1'', ao_task = ''get current ETH price'',
           workflowsInvoked = [''price-feed''], ao_totalSpentUSDC = 1 / 1000,
           ao_result = JObj [(''task'', JStr ''get current ETH price'')],
           paymentGated = True\<rparr>, 1)"
proof -
  have d: "invoke samplePlatform sampleAmbient sampleGateway (routeTask (task sampleTask))
             (nullish (params sampleTask) (JObj [(''task'', JStr (task sampleTask))]))
             shortSimpleWire (0::nat) =
     (Inr \<lparr>allowed = False,
           payment = \<lparr>valid = False, amount = 999, recipient = sampleRecipient,
                      payer = JStr samplePayer, txHash = Some ''0x01'',
                      error = Some ''Insufficient payment: required 0.001 USDC, got 0.000999 USDC''\<rparr>,
           workflowResult = None, pricePaid = None,
           gw_error = Some ''Insufficient payment: required 0.001 USDC, got 0.000999 USDC''\<rparr>, 0)"
    by code_simp
  have a: "invoke samplePlatform sampleAmbient sampleGateway (routeTask (task sampleTask))
             (nullish (params sampleTask) (JObj [(''task'', JStr (task sampleTask))]))
             exactSimpleWire (0::nat) =
     (Inr \<lparr>allowed = True,
           payment = \<lparr>valid = True, amount = 1000, recipient = sampleRecipient,
                      payer = JStr samplePayer, txHash = Some ''0x01'', error = None\<rparr>,
           workflowResult = Some \<lparr>wr_requestId = ''req-1'', wr_workflowName = ''price-feed'',
                                  wr_status = WfSuccess,
                                  wr_result = JObj [(''task'', JStr ''get current ETH price'')],
                                  wr_error = None, wr_executionMs = Some 3\<rparr>,
           pricePaid = Some (1 / 1000), gw_error = None\<rparr>, 1)"
    by code_simp
  have r: "routeTask ''get current ETH price'' = ''price-feed''" by code_simp
  have price: "requiredPriceOf sampleGateway ''price-feed'' = 1 / 1000" by code_simp
  have f: "\<And>x. fl samplePlatform x = x" by (simp add: samplePlatform_def tablePlatform_def)
  have tk: "task sampleTask = ''get current ETH price''" by (simp add: sampleTask_def)
  show ?thesis
    using orchestrateAgentTask_raises_on_denial[where P = samplePlatform and amb = sampleAmbient
            and G = sampleGateway and tk = sampleTask and wire = shortSimpleWire
            and w = "0::nat" and tid = "''task-1''"]
          orchestrateAgentTask_raises_on_denial[where P = samplePlatform and amb = sampleAmbient
            and G = sampleGateway and tk = sampleTask and wire = exactSimpleWire
            and w = "0::nat" and tid = "''task-1''"]
    unfolding d a by (simp add: r price f tk)
qed

section \<open>The amount check\<close>

lemma bindE_simps [simp]: "bindE (Inr x) f = f x" "bindE (Inl e) f = Inl e"
  by (simp_all add: bindE_def)


lemma getProp_JObj_Inr: "\<exists>v. getProp (JObj kvs) k = Inr v"
  by simp






lemma verify_simple:
  assumes "wire \<noteq> []" and "decodePaymentProof P wire = Inr obj"
    and "\<not> isRealX402Proof obj" and "isMockProof obj"
  shows "verify P nowMs cfg wire = verifyMockProof P cfg obj"
  using assms by (simp add: verify_def)

lemma verify_delegated:
  assumes "wire \<noteq> []" and "decodePaymentProof P wire = Inr obj" and "isRealX402Proof obj"
  shows "verify P nowMs cfg wire = verifyRealX402Proof P nowMs cfg obj"
  using assms by (simp add: verify_def)


lemma toMicro_sample: "toMicroUnits samplePlatform (requiredAmountUSDC simulationConfig) = 1000"
  by code_simp








section \<open>Simple proofs in strict mode\<close>






section \<open>Exceptions that escape the verifier\<close>

text \<open>
  \<^verbatim>\<open>verify\<close> catches what \<^verbatim>\<open>decodePaymentProof\<close> throws and, in strict mode, what the
  signature check throws. The conversions in between are outside both \<^verbatim>\<open>try\<close> blocks.
  A Simple proof whose amount does not read as a BigInt makes \<^verbatim>\<open>verify\<close> throw.
\<close>

lemma verify_simple_amount_raises:
  assumes "wire \<noteq> []" and "decodePaymentProof P wire = Inr obj"
    and "\<not> isRealX402Proof obj" and "isMockProof obj"
    and "getProp obj ''amount'' = Inr a"
    and "stringToBigInt (jsString (numberToString P) (nullish a (JStr ''0''))) = Inl e"
  shows "verify P nowMs cfg wire = Inl e"
proof -
  have v: "verify P nowMs cfg wire = verifyMockProof P cfg obj"
    using assms(1-4) by (rule verify_simple)
  show ?thesis unfolding v using assms(5,6) by (simp add: verifyMockProof_def)
qed

lemma decode_badAmount: "decodePaymentProof samplePlatform badAmountWire = Inr badAmountProof"
  by code_simp

text \<open>
  C2. \<^verbatim>\<open>verify\<close> does raise on a malformed proof: on the base64 of the JSON text
  \<^verbatim>\<open>{"txHash":"0x01","amount":"abc","recipient":...,"payer":...}\<close>, a proof of the
  Simple format whose amount is the string \<^verbatim>\<open>abc\<close>, it returns no result but throws the
  \<^verbatim>\<open>SyntaxError\<close> of \<^verbatim>\<open>BigInt("abc")\<close>, at every time.
\<close>

theorem verify_raises_on_unreadable_amount:
  "verify samplePlatform nowMs simulationConfig badAmountWire =
     Inl (SyntaxError ''Cannot convert abc to a BigInt'')"
proof -
  have ne: "badAmountWire \<noteq> []" by (simp add: badAmountWire_def)
  have a: "\<not> isRealX402Proof badAmountProof" by code_simp
  have b: "isMockProof badAmountProof" by code_simp
  have c: "getProp badAmountProof ''amount'' = Inr (JStr ''abc'')" by code_simp
  have d: "stringToBigInt (jsString (numberToString samplePlatform)
              (nullish (JStr ''abc'') (JStr ''0''))) =
           Inl (SyntaxError ''Cannot convert abc to a BigInt'')" by code_simp
  show ?thesis by (rule verify_simple_amount_raises[OF ne decode_badAmount a b c d])
qed

theorem verify_raises_on_unreadable_amount_witness:
  "verify samplePlatform 0 simulationConfig badAmountWire =
     Inl (SyntaxError ''Cannot convert abc to a BigInt'')"
  using verify_raises_on_unreadable_amount[of 0] by simp

text \<open>
  Outside the two proof formats the verifier does return a result: on the empty string,
  on a string that does not decode, and on a decoded value of neither format.
\<close>

lemma verify_returns_outside_proof_formats:
  assumes "wire = [] \<or> (\<exists>e. decodePaymentProof P wire = Inl e) \<or>
           (\<exists>obj. decodePaymentProof P wire = Inr obj \<and> \<not> isRealX402Proof obj \<and> \<not> isMockProof obj)"
  shows "\<exists>res. verify P nowMs cfg wire = Inr res \<and> \<not> valid res \<and> error res \<noteq> None"
  using assms by (auto simp: verify_def)

section \<open>The validity window of Delegated proofs\<close>

text \<open>
  The bounds are read with \<^verbatim>\<open>parseInt\<close>. When both are numbers (and the dates of the
  error messages can be printed), a Delegated proof that passed the recipient and amount
  checks is valid in simulation mode exactly when \<open>validAfter \<le> now < validBefore\<close>,
  is refused as not yet valid before the window and as expired from its end on
  (\<open>delegated_window_parsed\<close>). When a bound is not a number, \<^verbatim>\<open>parseInt\<close> gives
  \<^verbatim>\<open>NaN\<close>, both comparisons with it are false, and the check for that bound is passed
  (\<open>delegated_window_unparsed\<close>).
\<close>

lemma delegated_reads:
  assumes "getProp auth ''value'' = Inr v"
  shows "\<exists>x. getProp auth k = Inr x"
  using assms by (cases auth) auto

lemma delegated_window_unparsed:
  assumes "wire \<noteq> []" and "decodePaymentProof P wire = Inr obj" and "isRealX402Proof obj"
    and "getProp obj ''payload'' = Inr pl"
    and "getProp pl ''authorization'' = Inr auth"
    and "getProp auth ''value'' = Inr v"
    and "toBigInt (numberToString P) (nullish v (JStr ''0'')) = Inr amt"
    and "getProp auth ''to'' = Inr t"
    and "callToLowerCase ''recipient'' (nullish t (JStr [])) =
           Inr (toLowerCase (recipientAddress cfg))"
    and "toMicroUnits P (requiredAmountUSDC cfg) \<le> amt"
    and "getProp auth ''validAfter'' = Inr va"
    and "getProp auth ''validBefore'' = Inr vb"
    and "parseInt P (nullish va (JStr ''0'')) = Some a"
    and "a \<le> of_int (nowSeconds P nowMs)"
    and "parseInt P (nullish vb (JStr ''0'')) = None"
    and "simulationMode cfg = Some True"
  shows "\<exists>res. verify P nowMs cfg wire = Inr res \<and> valid res \<and> error res = None"
proof -
  have v: "verify P nowMs cfg wire = verifyRealX402Proof P nowMs cfg obj"
    using assms(1-3) by (rule verify_delegated)
  from delegated_reads[OF assms(6)] obtain f where f: "getProp auth ''from'' = Inr f" by blast
  show ?thesis unfolding v using assms(4-16) f
    by (simp add: verifyRealX402Proof_def Let_def)
qed

lemma delegated_window_parsed:
  assumes "wire \<noteq> []" and "decodePaymentProof P wire = Inr obj" and "isRealX402Proof obj"
    and "getProp obj ''payload'' = Inr pl"
    and "getProp pl ''authorization'' = Inr auth"
    and "getProp auth ''value'' = Inr v"
    and "toBigInt (numberToString P) (nullish v (JStr ''0'')) = Inr amt"
    and "getProp auth ''to'' = Inr t"
    and "callToLowerCase ''recipient'' (nullish t (JStr [])) =
           Inr (toLowerCase (recipientAddress cfg))"
    and "toMicroUnits P (requiredAmountUSDC cfg) \<le> amt"
    and "getProp auth ''validAfter'' = Inr va"
    and "getProp auth ''validBefore'' = Inr vb"
    and "parseInt P (nullish va (JStr ''0'')) = Some a"
    and "parseInt P (nullish vb (JStr ''0'')) = Some b"
    and "simulationMode cfg = Some True"
    and "verify P nowMs cfg wire = Inr res"
  shows "valid res \<longleftrightarrow> a \<le> of_int (nowSeconds P nowMs) \<and> of_int (nowSeconds P nowMs) < b"
    and "of_int (nowSeconds P nowMs) < a \<Longrightarrow>
           \<exists>iso. error res = Some (''Payment not yet valid (validAfter: '' @ iso @ '')'')"
    and "a \<le> of_int (nowSeconds P nowMs) \<Longrightarrow> b \<le> of_int (nowSeconds P nowMs) \<Longrightarrow>
           \<exists>iso. error res = Some (''Payment expired (validBefore: '' @ iso @ '')'')"
proof -
  have v: "verify P nowMs cfg wire = verifyRealX402Proof P nowMs cfg obj"
    using assms(1-3) by (rule verify_delegated)
  from delegated_reads[OF assms(6)] obtain f where f: "getProp auth ''from'' = Inr f" by blast
  note r = assms(16)[unfolded v]
  show "valid res \<longleftrightarrow> a \<le> of_int (nowSeconds P nowMs) \<and> of_int (nowSeconds P nowMs) < b"
    using r assms(4-15) f
    by (auto simp: verifyRealX402Proof_def Let_def bindE_Inr split: if_splits)
  show "of_int (nowSeconds P nowMs) < a \<Longrightarrow>
           \<exists>iso. error res = Some (''Payment not yet valid (validAfter: '' @ iso @ '')'')"
    using r assms(4-15) f
    by (auto simp: verifyRealX402Proof_def Let_def bindE_Inr split: if_splits)
  show "a \<le> of_int (nowSeconds P nowMs) \<Longrightarrow> b \<le> of_int (nowSeconds P nowMs) \<Longrightarrow>
           \<exists>iso. error res = Some (''Payment expired (validBefore: '' @ iso @ '')'')"
    using r assms(4-15) f
    by (auto simp: verifyRealX402Proof_def Let_def bindE_Inr split: if_splits)
qed

lemma decode_neverExpires:
  "decodePaymentProof samplePlatform neverExpiresWire = Inr neverExpiresProof"
  by code_simp

lemma nowSeconds_sample: "0 \<le> nowMs \<Longrightarrow> 0 \<le> nowSeconds samplePlatform nowMs"
  by (simp add: nowSeconds_def samplePlatform_def tablePlatform_def)

text \<open>
  C5. The time-window check accepts a proof that has no window: on the base64 of a
  Delegated proof with \<^verbatim>\<open>"validAfter":"0"\<close> and \<^verbatim>\<open>"validBefore":"never"\<close>, paying
  enough to the right recipient, verification in simulation mode is valid at every
  clock reading from the epoch on. The proof never expires.
\<close>

theorem unparsable_validBefore_never_expires:
  assumes "0 \<le> nowMs"
  shows "\<exists>res. verify samplePlatform nowMs simulationConfig neverExpiresWire = Inr res \<and>
           valid res \<and> error res = None"
proof -
  define auth where "auth = JObj [(''from'', JStr samplePayer), (''to'', JStr sampleRecipient),
      (''value'', JStr ''5000''), (''validAfter'', JStr ''0''),
      (''validBefore'', JStr ''never''), (''nonce'', JStr ''0x01'')]"
  define pl where "pl = JObj [(''signature'', JStr ''0x00''), (''authorization'', auth)]"
  have ne: "neverExpiresWire \<noteq> []" by (simp add: neverExpiresWire_def)
  have r: "isRealX402Proof neverExpiresProof" by code_simp
  have h1: "getProp neverExpiresProof ''payload'' = Inr pl" unfolding pl_def auth_def by code_simp
  have h2: "getProp pl ''authorization'' = Inr auth" unfolding pl_def auth_def by code_simp
  have h3: "getProp auth ''value'' = Inr (JStr ''5000'')" unfolding auth_def by code_simp
  have h4: "toBigInt (numberToString samplePlatform) (nullish (JStr ''5000'') (JStr ''0'')) = Inr 5000"
    by code_simp
  have h5: "getProp auth ''to'' = Inr (JStr sampleRecipient)" unfolding auth_def by code_simp
  have h6: "callToLowerCase ''recipient'' (nullish (JStr sampleRecipient) (JStr [])) =
           Inr (toLowerCase (recipientAddress simulationConfig))" by code_simp
  have h7: "toMicroUnits samplePlatform (requiredAmountUSDC simulationConfig) \<le> 5000"
    by (simp add: toMicro_sample)
  have h8: "getProp auth ''validAfter'' = Inr (JStr ''0'')" unfolding auth_def by code_simp
  have h9: "getProp auth ''validBefore'' = Inr (JStr ''never'')" unfolding auth_def by code_simp
  have h10: "parseInt samplePlatform (nullish (JStr ''0'') (JStr ''0'')) = Some 0" by code_simp
  have h11: "(0::rat) \<le> of_int (nowSeconds samplePlatform nowMs)"
    using nowSeconds_sample[OF assms] by simp
  have h12: "parseInt samplePlatform (nullish (JStr ''never'') (JStr ''0'')) = None" by code_simp
  have h13: "simulationMode simulationConfig = Some True" by (simp add: simulationConfig_def)
  show ?thesis
    by (rule delegated_window_unparsed[OF ne decode_neverExpires r h1 h2 h3 h4 h5 h6 h7 h8 h9 h10 h11 h12 h13])
qed

theorem unparsable_validBefore_never_expires_witness:
  "\<exists>res. verify samplePlatform 4102444800000 simulationConfig neverExpiresWire = Inr res \<and>
           valid res \<and> error res = None"
  using unparsable_validBefore_never_expires[of 4102444800000] by simp

section \<open>The amount survives the wire\<close>
















lemma decode_of_parsed:
  assumes "jsonParse P (base64ToUtf8 P wire) = Some (JObj kvs)"
  shows "decodePaymentProof P wire = Inr (JObj kvs)"
  using assms by (simp add: decodePaymentProof_def)








section \<open>One iteration of the orchestration loop\<close>

lemma orchestrateStep_skip:
  assumes "hasFailure st" and "\<not> cont"
  shows "orchestrateStep P el cl cont tr i step rest st w =
           (st\<lparr>stepResults := stepResults st @
               [\<lparr>sr_workflowName = os_workflowName step, stepIndex = i, sr_status = Skipped,
                 sr_result = None, sr_error = None, sr_paymentProof = None,
                 sr_executionMs = None, spentUSDC = None\<rparr>]\<rparr>, w)"
  using assms by (simp add: orchestrateStep_def)

lemma orchestrateStep_run:
  assumes "\<not> (hasFailure st \<and> \<not> cont)"
    and "orchestrateStep P el cl cont tr i step rest st w = (st', w')"
  shows "\<exists>r s. cl (os_workflowName step) (stepPayload step st) w = (r, w') \<and>
           stepResults st' = stepResults st @ [s] \<and>
           sr_workflowName s = os_workflowName step \<and> stepIndex s = i \<and>
           ((sr_status s = Failed \<and> spentUSDC s = None \<and> sr_result s = None \<and> hasFailure st' \<and>
             totalSpent st' = totalSpent st \<and>
             ((\<exists>e. r = Inl e) \<or> (\<exists>x. r = Inr x \<and> \<not> success x))) \<or>
            (\<exists>x. r = Inr x \<and> success x \<and> spentUSDC s = Some (paidOf x) \<and>
               sr_result s = Some (air_result x) \<and>
               totalSpent st' = fl P (totalSpent st + paidOf x) \<and>
               ((sr_status s = Success \<and> hasFailure st' = hasFailure st \<and>
                 (rest = [] \<or> (\<exists>p. tr (air_result x) (os_workflowName (hd rest)) i = Inr p))) \<or>
                (sr_status s = Failed \<and> hasFailure st' \<and> rest \<noteq> [] \<and>
                 (\<exists>e. tr (air_result x) (os_workflowName (hd rest)) i = Inl e \<and>
                    sr_error s = Some (''Payload transformer error: '' @ message e))))))"
proof (cases "cl (os_workflowName step) (stepPayload step st) w")
  case (Pair r w1)
  show ?thesis
  proof (cases r)
    case (Inl e)
    with Pair assms show ?thesis
      by (auto simp: orchestrateStep_def stepPayload_def)
  next
    case (Inr x)
    show ?thesis
    proof (cases "success x")
      case False
      with Pair Inr assms show ?thesis
        by (auto simp: orchestrateStep_def stepPayload_def)
    next
      case True
      show ?thesis
      proof (cases rest)
        case Nil
        with True Pair Inr assms show ?thesis
          by (auto simp: orchestrateStep_def stepPayload_def paidOf_def Let_def)
      next
        case (Cons nxt others)
        show ?thesis
        proof (cases "tr (air_result x) (os_workflowName nxt) i")
          case (Inl e)
          with Cons True Pair Inr assms show ?thesis
            by (auto simp: orchestrateStep_def stepPayload_def paidOf_def Let_def)
        next
          case (Inr p)
          with Cons True Pair \<open>r = Inr x\<close> assms show ?thesis
            by (auto simp: orchestrateStep_def stepPayload_def paidOf_def Let_def)
        qed
      qed
    qed
  qed
qed


lemma orchestrateLoop_preserves:
  assumes step: "\<And>i step rest st w st' w'.
      I st w \<Longrightarrow> orchestrateStep P el cl cont tr i step rest st w = (st', w') \<Longrightarrow> I st' w'"
    and "I st w"
    and "orchestrateLoop P el cl cont tr i chainSteps st w = (st', w')"
  shows "I st' w'"
  using assms(2,3)
proof (induction chainSteps arbitrary: i st w)
  case Nil
  then show ?case by simp
next
  case (Cons x xs)
  obtain st1 w1 where s1: "orchestrateStep P el cl cont tr i x xs st w = (st1, w1)"
    by (cases "orchestrateStep P el cl cont tr i x xs st w")
  with Cons.prems(2) have l: "orchestrateLoop P el cl cont tr (Suc i) xs st1 w1 = (st', w')"
    by simp
  from step[OF Cons.prems(1) s1] have "I st1 w1" .
  from Cons.IH[OF this l] show ?case .
qed









lemma orchestrate_unfold:
  "orchestrate P amb cl chain cfg w =
     (case orchestrateLoop P (oa_elapsedMs amb) cl
             (case continueOnFailure cfg of Some b \<Rightarrow> b | None \<Rightarrow> False)
             (case payloadTransformer cfg of Some f \<Rightarrow> f | None \<Rightarrow> defaultTransformer)
             0 (normalizeChain chain)
             \<lparr>stepResults = [],
              currentPayload = (case initialPayload cfg of Some p \<Rightarrow> p | None \<Rightarrow> JObj []),
              totalSpent = 0, lastSuccessResult = JUndefined, hasFailure = False\<rparr> w of
        (st, w') \<Rightarrow>
          (\<lparr>orchestrationId = oa_uuid amb,
            workflowChain = map os_workflowName (normalizeChain chain),
            steps = stepResults st,
            finalResult = lastSuccessResult st,
            totalSpentUSDC = totalSpent st,
            stepsCompleted = length (filter (\<lambda>s. sr_status s \<noteq> Skipped) (stepResults st)),
            or_status = finalStatus (case continueOnFailure cfg of Some b \<Rightarrow> b | None \<Rightarrow> False)
                          (stepResults st),
            startedAt = oa_startedAt amb,
            completedAt = oa_completedAt amb\<rparr>, w'))"
  by (simp add: orchestrate_def Let_def)


lemma orchestrateStep_status:
  assumes "orchestrateStep P el cl cont tr i step rest st w = (st', w')"
  shows "\<exists>s. stepResults st' = stepResults st @ [s] \<and>
           sr_workflowName s = os_workflowName step \<and> stepIndex s = i \<and>
           (if hasFailure st \<and> \<not> cont
            then sr_status s = Skipped \<and> hasFailure st' \<and> w' = w
            else (\<exists>r. cl (os_workflowName step) (stepPayload step st) w = (r, w')) \<and>
                 ((sr_status s = Success \<and> hasFailure st' = hasFailure st) \<or>
                  (sr_status s = Failed \<and> hasFailure st')))"
proof (cases "hasFailure st \<and> \<not> cont")
  case True
  with assms orchestrateStep_skip[of st cont P el cl tr i step rest w]
  show ?thesis by auto
next
  case False
  from orchestrateStep_run[OF False assms] False
  show ?thesis by auto
qed

lemma statusShape_step:
  assumes "statusShape cont f sts"
    and "if f \<and> \<not> cont then s = Skipped \<and> f'
         else (s = Success \<and> f' = f) \<or> (s = Failed \<and> f')"
  shows "statusShape cont f' (sts @ [s])"
proof (cases cont)
  case True
  with assms show ?thesis by (auto simp: statusShape_def split: if_splits)
next
  case False
  with assms(1) obtain k m where
    sh: "sts = replicate k Success @ (if f then Failed # replicate m Skipped else [])"
    and fl: "f \<longleftrightarrow> Failed \<in> set sts"
    by (auto simp: statusShape_def)
  show ?thesis
  proof (cases f)
    case True
    with assms(2) False have s: "s = Skipped" "f'" by auto
    have e: "sts @ [s] = replicate k Success @ (if f' then Failed # replicate (Suc m) Skipped else [])"
      using sh True s by (simp add: replicate_append_same)
    then have "\<exists>k m. sts @ [s] = replicate k Success @ (if f' then Failed # replicate m Skipped else [])"
      by blast
    moreover have "f' \<longleftrightarrow> Failed \<in> set (sts @ [s])" using s fl True by simp
    ultimately show ?thesis using False unfolding statusShape_def by simp
  next
    case nf: False
    with sh have sts: "sts = replicate k Success" by simp
    from assms(2) nf have "(s = Success \<and> \<not> f') \<or> (s = Failed \<and> f')" by auto
    then show ?thesis
    proof
      assume a: "s = Success \<and> \<not> f'"
      then have e: "sts @ [s] = replicate (Suc k) Success @ (if f' then Failed # replicate 0 Skipped else [])"
        using sts by (simp add: replicate_append_same)
      then have "\<exists>k m. sts @ [s] = replicate k Success @ (if f' then Failed # replicate m Skipped else [])"
        by blast
      moreover have "f' \<longleftrightarrow> Failed \<in> set (sts @ [s])" using a sts by auto
      ultimately show ?thesis using False unfolding statusShape_def by simp
    next
      assume a: "s = Failed \<and> f'"
      then have e: "sts @ [s] = replicate k Success @ (if f' then Failed # replicate 0 Skipped else [])"
        using sts by simp
      then have "\<exists>k m. sts @ [s] = replicate k Success @ (if f' then Failed # replicate m Skipped else [])"
        by blast
      moreover have "f' \<longleftrightarrow> Failed \<in> set (sts @ [s])" using a by simp
      ultimately show ?thesis using False unfolding statusShape_def by simp
    qed
  qed
qed

lemma orchestrateLoop_shape:
  assumes "orchestrateLoop P el cl cont tr i chainSteps st w = (st', w')"
    and "statusShape cont (hasFailure st) (map sr_status (stepResults st))"
  shows "statusShape cont (hasFailure st') (map sr_status (stepResults st'))"
proof -
  let ?I = "\<lambda>st (w::'a). statusShape cont (hasFailure st) (map sr_status (stepResults st))"
  have "?I st' w'"
  proof (rule orchestrateLoop_preserves[where I = ?I, OF _ _ assms(1)])
    fix i step rest st w st' w'
    assume i: "?I st (w::'a)"
      and s: "orchestrateStep P el cl cont tr i step rest st w = (st', w')"
    from orchestrateStep_status[OF s] obtain x where
      x: "stepResults st' = stepResults st @ [x]"
      and c: "if hasFailure st \<and> \<not> cont then sr_status x = Skipped \<and> hasFailure st'
              else (sr_status x = Success \<and> hasFailure st' = hasFailure st) \<or>
                   (sr_status x = Failed \<and> hasFailure st')"
      by (auto split: if_splits)
    from statusShape_step[OF i c] show "?I st' w'" by (simp add: x)
  next
    from assms(2) show "?I st w" .
  qed
  then show ?thesis .
qed

lemma shape_skipped_after_failed:
  assumes "statusShape cont f sts" and "j < length sts" and "sts ! j = Skipped"
  shows "\<not> cont \<and> (\<exists>i<j. sts ! i = Failed)"
proof -
  from assms(2,3) have in_set: "Skipped \<in> set sts" by (metis nth_mem)
  with assms(1) have nc: "\<not> cont" by (auto simp: statusShape_def)
  with assms(1) obtain k m where
    sh: "sts = replicate k Success @ (if f then Failed # replicate m Skipped else [])"
    by (auto simp: statusShape_def)
  from in_set sh have f: f by (auto split: if_splits)
  with sh have sts: "sts = replicate k Success @ Failed # replicate m Skipped" by simp
  have "k < j"
  proof (rule ccontr)
    assume "\<not> k < j"
    then have "j < k \<or> j = k" by arith
    then show False using assms(3) unfolding sts by (auto simp: nth_append)
  qed
  moreover have "sts ! k = Failed" unfolding sts by (simp add: nth_append)
  ultimately show ?thesis using nc by blast
qed

lemma shape_after_failed_skipped:
  assumes "statusShape cont f sts" and "\<not> cont" and "i < j" and "j < length sts"
    and "sts ! i = Failed"
  shows "sts ! j = Skipped"
proof -
  from assms(1,2) obtain k m where
    sh: "sts = replicate k Success @ (if f then Failed # replicate m Skipped else [])"
    by (auto simp: statusShape_def)
  from assms(3,4,5) have "Failed \<in> set sts" by (metis nth_mem less_trans)
  with sh have f: f by (auto split: if_splits)
  with sh have sts: "sts = replicate k Success @ Failed # replicate m Skipped" by simp
  have ik: "i = k"
  proof (rule ccontr)
    assume "i \<noteq> k"
    then have "i < k \<or> k < i" by arith
    then show False using assms(3,4,5) unfolding sts
      by (auto simp: nth_append nth_Cons split: nat.splits if_splits)
  qed
  with assms(3,4) show ?thesis unfolding sts
    by (auto simp: nth_append nth_Cons split: nat.splits)
qed

lemma orchestrateLoop_names:
  assumes "orchestrateLoop P el cl cont tr i chainSteps st w = (st', w')"
  shows "map sr_workflowName (stepResults st') =
           map sr_workflowName (stepResults st) @ map os_workflowName chainSteps \<and>
         map stepIndex (stepResults st') =
           map stepIndex (stepResults st) @ [i..<i + length chainSteps]"
  using assms
proof (induction chainSteps arbitrary: i st w)
  case Nil
  then show ?case by simp
next
  case (Cons x xs)
  obtain st1 w1 where s1: "orchestrateStep P el cl cont tr i x xs st w = (st1, w1)"
    by (cases "orchestrateStep P el cl cont tr i x xs st w")
  with Cons.prems have l: "orchestrateLoop P el cl cont tr (Suc i) xs st1 w1 = (st', w')"
    by simp
  from orchestrateStep_status[OF s1] obtain s where
    s: "stepResults st1 = stepResults st @ [s]" "sr_workflowName s = os_workflowName x"
       "stepIndex s = i"
    by blast
  have u: "[i..<i + length (x # xs)] = i # [Suc i..<Suc i + length xs]"
    by (simp add: upt_conv_Cons del: upt_Suc)
  from Cons.IH[OF l] s show ?case unfolding u by simp
qed

text \<open>The recording client sees one invocation per step that is not skipped.\<close>

lemma orchestrateStep_logged:
  "orchestrateStep P el (logged cl) cont tr i step rest st (w, l) =
     (case orchestrateStep P el cl cont tr i step rest st w of
        (st', w') \<Rightarrow> (st', (w', if hasFailure st \<and> \<not> cont then l else l @ [os_workflowName step])))"
  by (auto simp: orchestrateStep_def logged_def Let_def split: prod.splits sum.splits list.splits)

lemma orchestrateLoop_logged:
  "\<exists>l'. orchestrateLoop P el (logged cl) cont tr i chainSteps st (w, l) =
     (fst (orchestrateLoop P el cl cont tr i chainSteps st w),
      (snd (orchestrateLoop P el cl cont tr i chainSteps st w), l'))"
proof (induction chainSteps arbitrary: i st w l)
  case Nil
  then show ?case by simp
next
  case (Cons x xs)
  obtain st1 w1 where s1: "orchestrateStep P el cl cont tr i x xs st w = (st1, w1)"
    by (cases "orchestrateStep P el cl cont tr i x xs st w")
  from Cons.IH[of "Suc i" st1 w1] s1 show ?case
    by (simp add: orchestrateStep_logged)
qed

lemma orchestrateLoop_log:
  assumes "orchestrateLoop P el (logged cl) cont tr i chainSteps st wl = (st', wl')"
    and "snd wl = map sr_workflowName (filter (\<lambda>s. sr_status s \<noteq> Skipped) (stepResults st))"
  shows "snd wl' = map sr_workflowName (filter (\<lambda>s. sr_status s \<noteq> Skipped) (stepResults st'))"
proof -
  let ?I = "\<lambda>st (wl::'a \<times> string list).
      snd wl = map sr_workflowName (filter (\<lambda>s. sr_status s \<noteq> Skipped) (stepResults st))"
  have "?I st' wl'"
  proof (rule orchestrateLoop_preserves[where I = ?I, OF _ _ assms(1)])
    fix i step rest st wl st' wl'
    assume i: "?I st (wl::'a \<times> string list)"
      and s: "orchestrateStep P el (logged cl) cont tr i step rest st wl = (st', wl')"
    from orchestrateStep_status[OF s] obtain x where
      x: "stepResults st' = stepResults st @ [x]" "sr_workflowName x = os_workflowName step"
      and c: "if hasFailure st \<and> \<not> cont then sr_status x = Skipped \<and> wl' = wl
              else (\<exists>r. logged cl (os_workflowName step) (stepPayload step st) wl = (r, wl')) \<and>
                   sr_status x \<noteq> Skipped"
      by (auto split: if_splits)
    show "?I st' wl'"
    proof (cases "hasFailure st \<and> \<not> cont")
      case True
      with c i x show ?thesis by simp
    next
      case False
      with c obtain r where "logged cl (os_workflowName step) (stepPayload step st) wl = (r, wl')"
        and ns: "sr_status x \<noteq> Skipped" by auto
      then have "snd wl' = snd wl @ [os_workflowName step]"
        by (auto simp: logged_def split: prod.splits)
      with i x ns show ?thesis by simp
    qed
  next
    from assms(2) show "?I st wl" .
  qed
  then show ?thesis .
qed

lemma initial_shape: "statusShape cont False []"
  by (simp add: statusShape_def)

lemma orchestrate_three_steps:
  assumes c: "continueOnFailure cfg \<noteq> Some True"
    and a: "cl a (case initialPayload cfg of Some p \<Rightarrow> p | None \<Rightarrow> JObj []) w = (Inr ra, w1)"
    and sa: "success ra"
    and t: "(case payloadTransformer cfg of Some f \<Rightarrow> f | None \<Rightarrow> defaultTransformer)
              (air_result ra) b 0 = Inr p1"
    and b: "cl b p1 w1 = (rb, w2)"
    and fb: "\<forall>x. rb = Inr x \<longrightarrow> \<not> success x"
  shows "map sr_status (steps (fst (orchestrate P amb cl [Name a, Name b, Name c] cfg w))) =
           [Success, Failed, Skipped] \<and>
         or_status (fst (orchestrate P amb cl [Name a, Name b, Name c] cfg w)) = OrchestrationFailed \<and>
         snd (orchestrate P amb cl [Name a, Name b, Name c] cfg w) = w2"
proof -
  from c have cont: "(case continueOnFailure cfg of Some b \<Rightarrow> b | None \<Rightarrow> False) = False"
    by (cases "continueOnFailure cfg") auto
  show ?thesis
  proof (cases rb)
    case (Inl e)
    with a sa t b cont show ?thesis
      by (simp add: orchestrate_unfold normalizeChain_def orchestrateStep_def Let_def
          finalStatus_def)
  next
    case (Inr x)
    with fb have "\<not> success x" by simp
    with Inr a sa t b cont show ?thesis
      by (simp add: orchestrate_unfold normalizeChain_def orchestrateStep_def Let_def
          finalStatus_def)
  qed
qed

section \<open>Skipped steps\<close>

text \<open>
  C6. For every orchestration run:
  \<^item> a step recorded as skipped occurs only under stop-on-failure
    (\<^verbatim>\<open>continueOnFailure\<close> not true) and after an earlier step recorded as failed;
  \<^item> under stop-on-failure every step after a failed step is recorded as skipped;
  \<^item> the recorded steps are those of the chain, in order, with their names and indices;
  \<^item> a client that records its invocations sees exactly the steps that are not
    skipped, in order, and the run is otherwise the same: a skipped step is never
    invoked;
  \<^item> in particular, for a chain of three names under stop-on-failure where the first
    invocation succeeds (and its result is transformed) and the second fails (by an
    exception or a returned failure), the statuses are success, failed, skipped, the
    overall status is failed, and the world is as the second invocation left it.
\<close>

theorem skipped_only_after_failure:
  "(\<forall>j < length (steps (fst (orchestrate P amb cl chain cfg w))).
      sr_status (steps (fst (orchestrate P amb cl chain cfg w)) ! j) = Skipped \<longrightarrow>
      continueOnFailure cfg \<noteq> Some True \<and>
      (\<exists>i < j. sr_status (steps (fst (orchestrate P amb cl chain cfg w)) ! i) = Failed)) \<and>
   (continueOnFailure cfg \<noteq> Some True \<longrightarrow>
      (\<forall>i j. i < j \<and> j < length (steps (fst (orchestrate P amb cl chain cfg w))) \<and>
         sr_status (steps (fst (orchestrate P amb cl chain cfg w)) ! i) = Failed \<longrightarrow>
         sr_status (steps (fst (orchestrate P amb cl chain cfg w)) ! j) = Skipped)) \<and>
   map sr_workflowName (steps (fst (orchestrate P amb cl chain cfg w))) =
     map os_workflowName (normalizeChain chain) \<and>
   map stepIndex (steps (fst (orchestrate P amb cl chain cfg w))) = [0..<length chain] \<and>
   fst (orchestrate P amb (logged cl) chain cfg (w, [])) = fst (orchestrate P amb cl chain cfg w) \<and>
   snd (orchestrate P amb (logged cl) chain cfg (w, [])) =
     (snd (orchestrate P amb cl chain cfg w),
      map sr_workflowName
        (filter (\<lambda>s. sr_status s \<noteq> Skipped) (steps (fst (orchestrate P amb cl chain cfg w))))) \<and>
   (\<forall>a b c ra w1 p1 rb w2.
      chain = [Name a, Name b, Name c] \<longrightarrow>
      continueOnFailure cfg \<noteq> Some True \<longrightarrow>
      cl a (case initialPayload cfg of Some p \<Rightarrow> p | None \<Rightarrow> JObj []) w = (Inr ra, w1) \<longrightarrow>
      success ra \<longrightarrow>
      (case payloadTransformer cfg of Some f \<Rightarrow> f | None \<Rightarrow> defaultTransformer)
        (air_result ra) b 0 = Inr p1 \<longrightarrow>
      cl b p1 w1 = (rb, w2) \<longrightarrow>
      (\<forall>x. rb = Inr x \<longrightarrow> \<not> success x) \<longrightarrow>
      map sr_status (steps (fst (orchestrate P amb cl chain cfg w))) = [Success, Failed, Skipped] \<and>
      or_status (fst (orchestrate P amb cl chain cfg w)) = OrchestrationFailed \<and>
      snd (orchestrate P amb cl chain cfg w) = w2)"
proof -
  let ?cont = "case continueOnFailure cfg of Some b \<Rightarrow> b | None \<Rightarrow> False"
  let ?tr = "case payloadTransformer cfg of Some f \<Rightarrow> f | None \<Rightarrow> defaultTransformer"
  let ?st0 = "\<lparr>stepResults = [],
              currentPayload = (case initialPayload cfg of Some p \<Rightarrow> p | None \<Rightarrow> JObj []),
              totalSpent = 0, lastSuccessResult = JUndefined, hasFailure = False\<rparr>"
  let ?r = "fst (orchestrate P amb cl chain cfg w)"
  have cont: "?cont \<longleftrightarrow> continueOnFailure cfg = Some True"
    by (cases "continueOnFailure cfg") auto
  obtain st w' where l: "orchestrateLoop P (oa_elapsedMs amb) cl ?cont ?tr 0 (normalizeChain chain) ?st0 w = (st, w')"
    by (cases "orchestrateLoop P (oa_elapsedMs amb) cl ?cont ?tr 0 (normalizeChain chain) ?st0 w")
  have r: "steps ?r = stepResults st" "snd (orchestrate P amb cl chain cfg w) = w'"
    using l by (simp_all add: orchestrate_unfold)
  from orchestrateLoop_shape[OF l] have sh: "statusShape ?cont (hasFailure st) (map sr_status (stepResults st))"
    by (simp add: initial_shape)
  have p1: "\<forall>j < length (steps ?r). sr_status (steps ?r ! j) = Skipped \<longrightarrow>
      continueOnFailure cfg \<noteq> Some True \<and> (\<exists>i < j. sr_status (steps ?r ! i) = Failed)"
  proof (intro allI impI)
    fix j assume j: "j < length (steps ?r)" and s: "sr_status (steps ?r ! j) = Skipped"
    from shape_skipped_after_failed[OF sh, of j] j s r(1)
    have "\<not> ?cont \<and> (\<exists>i<j. map sr_status (stepResults st) ! i = Failed)" by simp
    then obtain i where "\<not> ?cont" "i < j" "map sr_status (stepResults st) ! i = Failed" by blast
    with j r(1) cont show "continueOnFailure cfg \<noteq> Some True \<and> (\<exists>i < j. sr_status (steps ?r ! i) = Failed)"
      by auto
  qed
  have p2: "continueOnFailure cfg \<noteq> Some True \<longrightarrow>
      (\<forall>i j. i < j \<and> j < length (steps ?r) \<and> sr_status (steps ?r ! i) = Failed \<longrightarrow>
         sr_status (steps ?r ! j) = Skipped)"
  proof (intro allI impI)
    fix i j assume nc: "continueOnFailure cfg \<noteq> Some True"
      and h: "i < j \<and> j < length (steps ?r) \<and> sr_status (steps ?r ! i) = Failed"
    from nc cont have "\<not> ?cont" by simp
    from shape_after_failed_skipped[OF sh this, of i j] h r(1)
    show "sr_status (steps ?r ! j) = Skipped" by simp
  qed
  from orchestrateLoop_names[OF l]
  have p3: "map sr_workflowName (steps ?r) = map os_workflowName (normalizeChain chain)"
    and p4: "map stepIndex (steps ?r) = [0..<length chain]"
    unfolding r(1) by (simp_all add: normalizeChain_def)
  from orchestrateLoop_logged[of P "oa_elapsedMs amb" cl ?cont ?tr 0 "normalizeChain chain" ?st0 w "[]"]
  obtain lg where lg: "orchestrateLoop P (oa_elapsedMs amb) (logged cl) ?cont ?tr 0
                         (normalizeChain chain) ?st0 (w, []) = (st, (w', lg))"
    using l by auto
  from orchestrateLoop_log[OF lg] have "lg = map sr_workflowName (filter (\<lambda>s. sr_status s \<noteq> Skipped) (stepResults st))"
    by simp
  with lg l have p5: "fst (orchestrate P amb (logged cl) chain cfg (w, [])) = ?r"
    and p6: "snd (orchestrate P amb (logged cl) chain cfg (w, [])) =
     (snd (orchestrate P amb cl chain cfg w),
      map sr_workflowName (filter (\<lambda>s. sr_status s \<noteq> Skipped) (steps ?r)))"
    by (simp_all add: orchestrate_unfold)
  have p7: "\<forall>a b c ra w1 p1 rb w2.
      chain = [Name a, Name b, Name c] \<longrightarrow>
      continueOnFailure cfg \<noteq> Some True \<longrightarrow>
      cl a (case initialPayload cfg of Some p \<Rightarrow> p | None \<Rightarrow> JObj []) w = (Inr ra, w1) \<longrightarrow>
      success ra \<longrightarrow>
      ?tr (air_result ra) b 0 = Inr p1 \<longrightarrow>
      cl b p1 w1 = (rb, w2) \<longrightarrow>
      (\<forall>x. rb = Inr x \<longrightarrow> \<not> success x) \<longrightarrow>
      map sr_status (steps ?r) = [Success, Failed, Skipped] \<and>
      or_status ?r = OrchestrationFailed \<and>
      snd (orchestrate P amb cl chain cfg w) = w2"
  proof (intro allI impI)
    fix a b c ra w1 p1 rb w2
    assume ch: "chain = [Name a, Name b, Name c]"
      and h: "continueOnFailure cfg \<noteq> Some True"
        "cl a (case initialPayload cfg of Some p \<Rightarrow> p | None \<Rightarrow> JObj []) w = (Inr ra, w1)"
        "success ra" "?tr (air_result ra) b 0 = Inr p1" "cl b p1 w1 = (rb, w2)"
        "\<forall>x. rb = Inr x \<longrightarrow> \<not> success x"
    show "map sr_status (steps ?r) = [Success, Failed, Skipped] \<and>
      or_status ?r = OrchestrationFailed \<and>
      snd (orchestrate P amb cl chain cfg w) = w2"
      unfolding ch by (rule orchestrate_three_steps[OF h])
  qed
  show ?thesis
    by (intro conjI) (rule p1, rule p2, rule p3, rule p4, rule p5, rule p6, rule p7)
qed

lemma sample_three_logged:
  "map sr_workflowName (filter (\<lambda>s. sr_status s \<noteq> Skipped)
     (steps (fst (orchestrate samplePlatform sampleOrchestrateAmbient sampleClient
        threeStepChain stopOnFailure (0::nat))))) = [''price-feed'', ''risk-assessment'']"
  by code_simp

theorem skipped_only_after_failure_witness:
  "map sr_status (steps (fst (orchestrate samplePlatform sampleOrchestrateAmbient sampleClient
      threeStepChain stopOnFailure (0::nat)))) = [Success, Failed, Skipped] \<and>
   or_status (fst (orchestrate samplePlatform sampleOrchestrateAmbient sampleClient
      threeStepChain stopOnFailure (0::nat))) = OrchestrationFailed \<and>
   snd (orchestrate samplePlatform sampleOrchestrateAmbient sampleClient
      threeStepChain stopOnFailure (0::nat)) = 2 \<and>
   snd (orchestrate samplePlatform sampleOrchestrateAmbient (logged sampleClient)
      threeStepChain stopOnFailure (0::nat, [])) = (2, [''price-feed'', ''risk-assessment''])"
proof -
  define ra where "ra = \<lparr>success = True, air_result = JObj [(''from'', JStr ''price-feed'')],
              meta = Some \<lparr>meta_requestId = None, meta_workflowName = Some ''price-feed'',
                           meta_executionMs = None, meta_pricePaid = Some (1 / 1000),
                           paymentTx = None\<rparr>,
              air_error = None, paymentUsed = Some ''proof''\<rparr>"
  define rb where "rb = \<lparr>success = False, air_result = JUndefined, meta = None,
              air_error = Some ''Payment Required'', paymentUsed = Some ''proof''\<rparr>"
  define p1 where "p1 = JObj [(''from'', JStr ''price-feed''),
                   (''previousResult'', JObj [(''from'', JStr ''price-feed'')])]"
  note t = skipped_only_after_failure[where P = samplePlatform and amb = sampleOrchestrateAmbient
      and cl = sampleClient and chain = threeStepChain and cfg = stopOnFailure and w = "0::nat"]
  note t6 = t[THEN conjunct2, THEN conjunct2, THEN conjunct2, THEN conjunct2, THEN conjunct2,
      THEN conjunct1]
  note t7 = t[THEN conjunct2, THEN conjunct2, THEN conjunct2, THEN conjunct2, THEN conjunct2,
      THEN conjunct2, rule_format]
  have h1: "threeStepChain = [Name ''price-feed'', Name ''risk-assessment'', Name ''portfolio-rebalance'']"
    by (simp add: threeStepChain_def)
  have h2: "continueOnFailure stopOnFailure \<noteq> Some True" by (simp add: stopOnFailure_def)
  have h3: "sampleClient ''price-feed''
        (case initialPayload stopOnFailure of Some p \<Rightarrow> p | None \<Rightarrow> JObj []) (0::nat) = (Inr ra, 1)"
    unfolding ra_def by (simp add: sampleClient_def)
  have h4: "success ra" by (simp add: ra_def)
  have h5: "(case payloadTransformer stopOnFailure of Some f \<Rightarrow> f | None \<Rightarrow> defaultTransformer)
        (air_result ra) ''risk-assessment'' 0 = Inr p1"
    unfolding ra_def p1_def by (simp add: stopOnFailure_def)
  have h6: "sampleClient ''risk-assessment'' p1 1 = (Inr rb, 2)"
    unfolding rb_def by (simp add: sampleClient_def)
  have h7: "\<And>x. (Inr rb :: exn + AgentInvokeResult) = Inr x \<Longrightarrow> \<not> success x"
    by (auto simp: rb_def)
  note a = t7[OF h1 h2 h3 h4 h5 h6 h7]
  from a have a1: "map sr_status (steps (fst (orchestrate samplePlatform sampleOrchestrateAmbient
      sampleClient threeStepChain stopOnFailure (0::nat)))) = [Success, Failed, Skipped]"
    by (rule conjunct1)
  from a have a2: "or_status (fst (orchestrate samplePlatform sampleOrchestrateAmbient sampleClient
      threeStepChain stopOnFailure (0::nat))) = OrchestrationFailed"
    by (rule conjunct2[THEN conjunct1])
  from a have a3: "snd (orchestrate samplePlatform sampleOrchestrateAmbient sampleClient
      threeStepChain stopOnFailure (0::nat)) = 2"
    by (rule conjunct2[THEN conjunct2])
  have a4: "snd (orchestrate samplePlatform sampleOrchestrateAmbient (logged sampleClient)
      threeStepChain stopOnFailure (0::nat, [])) = (2, [''price-feed'', ''risk-assessment''])"
    unfolding t6 a3 sample_three_logged by (rule refl)
  show ?thesis by (intro conjI) (rule a1, rule a2, rule a3, rule a4)
qed


section \<open>The total spent\<close>





lemma sample_two_successful:
  "spentBySuccessfulSteps samplePlatform
     (steps (fst (orchestrate samplePlatform sampleOrchestrateAmbient sampleClient
        twoStepChain stopOnFailureThrowing (0::nat)))) = 0"
  by code_simp




end
